theory Spec2Isabelle
  imports Complex_Main "HOL-Library.AList"
begin

section \<open>Values: decoded JSON, Go maps, Go errors\<close>

text \<open>
  A Go value of type \<open>any\<close> that travels through the control protocol is a decoded JSON
  value. \<open>map[string]any\<close> is an association list with the Go index semantics written
  out: reading an absent key gives \<open>nil\<close> (\<open>JNull\<close>), a failed type assertion
  \<open>v.(string)\<close> gives the empty string and a failed \<open>v.(map[string]any)\<close> gives the nil
  map (\<open>None\<close>).
\<close>

datatype json =
    JNull
  | JBool bool
  | JNum real
  | JStr string
  | JArr "json list"
  | JObj "(string \<times> json) list"

type_synonym jmap = "(string \<times> json) list"

definition jget :: "jmap \<Rightarrow> string \<Rightarrow> json" where
  "jget m k = (case map_of m k of None \<Rightarrow> JNull | Some v \<Rightarrow> v)"

definition jset :: "string \<Rightarrow> json \<Rightarrow> jmap \<Rightarrow> jmap" where
  "jset k v m = AList.update k v m"

definition has_key :: "jmap \<Rightarrow> string \<Rightarrow> bool" where
  "has_key m k = (map_of m k \<noteq> None)"

fun as_string :: "json \<Rightarrow> string" where
  "as_string (JStr s) = s"
| "as_string _ = []"

fun as_map :: "json \<Rightarrow> jmap option" where
  "as_map (JObj m) = Some m"
| "as_map _ = None"

fun as_list :: "json \<Rightarrow> json list option" where
  "as_list (JArr xs) = Some xs"
| "as_list _ = None"

definition map_or_empty :: "jmap option \<Rightarrow> jmap" where
  "map_or_empty mo = (case mo of None \<Rightarrow> [] | Some m \<Rightarrow> m)"

text \<open>
  Go errors. \<open>Errorf\<close> is a \<open>fmt.Errorf\<close> value, \<open>SDKError\<close> and
  \<open>CLIConnectionError\<close> are the structs of errors.go with their optional cause, and
  \<open>CtxError\<close> is what \<open>ctx.Err()\<close> returns. \<open>Error\<close> is the \<open>Error()\<close> method.
\<close>

datatype error =
    Errorf string
  | SDKError string "error option"
  | CLIConnectionError string "error option"
  | CtxError string

fun Error :: "error \<Rightarrow> string" where
  "Error (Errorf s) = s"
| "Error (SDKError m None) = m"
| "Error (SDKError m (Some c)) = m @ '': '' @ Error c"
| "Error (CLIConnectionError m None) = m"
| "Error (CLIConnectionError m (Some c)) = m @ '': '' @ Error c"
| "Error (CtxError s) = s"

section \<open>float64 values and timers\<close>

text \<open>
  A Go \<open>float64\<close> as the timeouts use it: a finite value, held as the real number it
  stands for (the rounding of an operation is left out), an infinity, or NaN.
  \<open>f64_less\<close> and \<open>f64_le\<close> are \<open><\<close> and \<open><=\<close>, false whenever an operand is
  NaN; \<open>f64_div\<close> and \<open>f64_mul\<close> are \<open>/\<close> and \<open>*\<close> by a positive finite
  constant.

  \<open>time.Duration(x)\<close> converts a \<open>float64\<close> to an \<open>int64\<close>, here a number of
  nanoseconds: the fraction is discarded (\<open>trunc\<close>) when the result fits; for a value
  that does not fit, an infinity or NaN, Go leaves the result to the implementation,
  which is \<open>None\<close> here (on amd64 the result is the most negative \<open>int64\<close>).
  \<open>Second\<close> is \<open>time.Second\<close>. A timer created with a duration can fire once that
  many nanoseconds have elapsed, at once when the duration is not positive:
  \<open>timer_due timeout elapsed\<close> says that the timer created with
  \<open>time.Duration(timeout * float64(time.Second))\<close> can have fired \<open>elapsed\<close>
  seconds after its creation. Where the duration is left to the implementation, the
  model does not constrain the moment.
\<close>

datatype float64 = Fin real | PosInf | NegInf | NaN

fun f64_less :: "float64 \<Rightarrow> float64 \<Rightarrow> bool" where
  "f64_less (Fin a) (Fin b) = (a < b)"
| "f64_less (Fin a) PosInf = True"
| "f64_less NegInf (Fin b) = True"
| "f64_less NegInf PosInf = True"
| "f64_less _ _ = False"

fun f64_le :: "float64 \<Rightarrow> float64 \<Rightarrow> bool" where
  "f64_le (Fin a) (Fin b) = (a \<le> b)"
| "f64_le NaN _ = False"
| "f64_le _ NaN = False"
| "f64_le NegInf _ = True"
| "f64_le _ PosInf = True"
| "f64_le _ _ = False"

fun f64_div :: "float64 \<Rightarrow> real \<Rightarrow> float64" where
  "f64_div (Fin a) c = Fin (a / c)"
| "f64_div x c = x"

fun f64_mul :: "float64 \<Rightarrow> real \<Rightarrow> float64" where
  "f64_mul (Fin a) c = Fin (a * c)"
| "f64_mul x c = x"

definition trunc :: "real \<Rightarrow> int" where
  "trunc r = (if 0 \<le> r then \<lfloor>r\<rfloor> else \<lceil>r\<rceil>)"

fun Duration :: "float64 \<Rightarrow> int option" where
  "Duration (Fin r) = (if - (2 ^ 63) \<le> trunc r \<and> trunc r < 2 ^ 63 then Some (trunc r) else None)"
| "Duration _ = None"

definition Second :: real where
  "Second = 10 ^ 9"

definition timer_due :: "float64 \<Rightarrow> real \<Rightarrow> bool" where
  "timer_due timeout elapsed =
     (case Duration (f64_mul timeout Second) of
        None \<Rightarrow> True
      | Some ns \<Rightarrow> of_int ns \<le> elapsed * Second)"

section \<open>The in-process tool server\<close>

record MCPContent =
  content_Type :: string
  content_Text :: string
  content_Data :: string
  content_MimeType :: string

record MCPToolResult =
  Content :: "MCPContent list"
  IsError :: bool

record SdkMcpTool =
  tool_Name :: string
  tool_Description :: string
  tool_InputSchema :: "jmap option"
  tool_Handler :: "jmap \<Rightarrow> error + MCPToolResult"
  tool_Annotations :: "json option"

record McpServer =
  srv_Name :: string
  srv_Version :: string
  srv_Tools :: "SdkMcpTool list"
  toolMap :: "(string \<times> SdkMcpTool) list"

definition HandleInitialize :: "McpServer \<Rightarrow> json \<Rightarrow> jmap" where
  "HandleInitialize s ident =
     [(''jsonrpc'', JStr ''2.0''),
      (''id'', ident),
      (''result'', JObj
         [(''protocolVersion'', JStr ''2024-11-05''),
          (''capabilities'', JObj [(''tools'', JObj [])]),
          (''serverInfo'', JObj [(''name'', JStr (srv_Name s)),
                                 (''version'', JStr (srv_Version s))])])]"

definition toolData :: "SdkMcpTool \<Rightarrow> jmap" where
  "toolData t =
     (let schema = (case tool_InputSchema t of
                      None \<Rightarrow> [(''type'', JStr ''object''), (''properties'', JObj [])]
                    | Some sc \<Rightarrow> sc);
          td = [(''name'', JStr (tool_Name t)),
                (''description'', JStr (tool_Description t)),
                (''inputSchema'', JObj schema)]
      in case tool_Annotations t of
           None \<Rightarrow> td
         | Some a \<Rightarrow> jset ''annotations'' a td)"

definition HandleListTools :: "McpServer \<Rightarrow> json \<Rightarrow> jmap" where
  "HandleListTools s ident =
     [(''jsonrpc'', JStr ''2.0''),
      (''id'', ident),
      (''result'', JObj [(''tools'', JArr (map (JObj \<circ> toolData) (srv_Tools s)))])]"

definition contentItem :: "MCPContent \<Rightarrow> jmap" where
  "contentItem item =
     (let c = [(''type'', JStr (content_Type item))]
      in if content_Type item = ''text'' then jset ''text'' (JStr (content_Text item)) c
         else if content_Type item = ''image'' then
           jset ''mimeType'' (JStr (content_MimeType item))
             (jset ''data'' (JStr (content_Data item)) c)
         else c)"

definition quoted :: "string \<Rightarrow> string" where
  "quoted s = [CHR 0x27] @ s @ [CHR 0x27]"

definition HandleCallTool :: "McpServer \<Rightarrow> json \<Rightarrow> string \<Rightarrow> jmap \<Rightarrow> jmap" where
  "HandleCallTool s ident name arguments =
     (case map_of (toolMap s) name of
        None \<Rightarrow>
          [(''jsonrpc'', JStr ''2.0''),
           (''id'', ident),
           (''error'', JObj [(''code'', JNum (- 32601)),
                             (''message'', JStr (''Tool '' @ quoted name @ '' not found''))])]
      | Some tool \<Rightarrow>
          (case tool_Handler tool arguments of
             Inl e \<Rightarrow>
               [(''jsonrpc'', JStr ''2.0''),
                (''id'', ident),
                (''error'', JObj [(''code'', JNum (- 32603)),
                                  (''message'', JStr (Error e))])]
           | Inr res \<Rightarrow>
               (let responseData = [(''content'', JArr (map (JObj \<circ> contentItem) (Content res)))];
                    responseData' = (if IsError res
                                     then jset ''is_error'' (JBool True) responseData
                                     else responseData)
                in [(''jsonrpc'', JStr ''2.0''),
                    (''id'', ident),
                    (''result'', JObj responseData')])))"

definition HandleRequest :: "McpServer \<Rightarrow> jmap \<Rightarrow> jmap" where
  "HandleRequest s message =
     (let method = as_string (jget message ''method'');
          ident = jget message ''id'';
          params = map_or_empty (as_map (jget message ''params''))
      in if method = ''initialize'' then HandleInitialize s ident
         else if method = ''tools/list'' then HandleListTools s ident
         else if method = ''tools/call'' then
           (let name = as_string (jget params ''name'');
                args = map_or_empty (as_map (jget params ''arguments''))
            in HandleCallTool s ident name args)
         else if method = ''notifications/initialized'' then
           [(''jsonrpc'', JStr ''2.0''), (''result'', JObj [])]
         else
           [(''jsonrpc'', JStr ''2.0''),
            (''id'', ident),
            (''error'', JObj [(''code'', JNum (- 32601)),
                              (''message'', JStr (''Method '' @ quoted method @ '' not found''))])])"

definition emptyServer :: McpServer where
  "emptyServer = \<lparr>srv_Name = ''calc'', srv_Version = ''1.0.0'', srv_Tools = [], toolMap = []\<rparr>"

section \<open>Permission types\<close>

record PermissionRuleValue =
  ToolName :: string
  RuleContent :: string

record PermissionUpdate =
  pu_Type :: string
  Rules :: "PermissionRuleValue list"
  Behavior :: string
  Mode :: string
  Directories :: "string list"
  Destination :: string

definition ruleDict :: "PermissionRuleValue \<Rightarrow> jmap" where
  "ruleDict rule = [(''toolName'', JStr (ToolName rule)), (''ruleContent'', JStr (RuleContent rule))]"

definition ToDict :: "PermissionUpdate \<Rightarrow> jmap" where
  "ToDict p =
     (let result = [(''type'', JStr (pu_Type p))];
          result = (if Destination p \<noteq> [] then jset ''destination'' (JStr (Destination p)) result
                    else result)
      in if pu_Type p \<in> {''addRules'', ''replaceRules'', ''removeRules''} then
           (let result = (if length (Rules p) > 0
                          then jset ''rules'' (JArr (map (JObj \<circ> ruleDict) (Rules p))) result
                          else result)
            in if Behavior p \<noteq> [] then jset ''behavior'' (JStr (Behavior p)) result else result)
         else if pu_Type p = ''setMode'' then
           (if Mode p \<noteq> [] then jset ''mode'' (JStr (Mode p)) result else result)
         else if pu_Type p \<in> {''addDirectories'', ''removeDirectories''} then
           (if length (Directories p) > 0
            then jset ''directories'' (JArr (map JStr (Directories p))) result
            else result)
         else result)"

fun string_items :: "json list \<Rightarrow> string list" where
  "string_items [] = []"
| "string_items (JStr s # vs) = s # string_items vs"
| "string_items (_ # vs) = string_items vs"

fun map_items :: "json list \<Rightarrow> jmap list" where
  "map_items [] = []"
| "map_items (JObj m # vs) = m # map_items vs"
| "map_items (_ # vs) = map_items vs"

definition parseRule :: "jmap \<Rightarrow> PermissionRuleValue" where
  "parseRule rm = \<lparr>ToolName = as_string (jget rm ''toolName''),
                    RuleContent = as_string (jget rm ''ruleContent'')\<rparr>"

definition parsePermissionUpdate :: "jmap \<Rightarrow> PermissionUpdate" where
  "parsePermissionUpdate m =
     \<lparr>pu_Type = as_string (jget m ''type''),
      Rules = (case as_list (jget m ''rules'') of
                 None \<Rightarrow> []
               | Some v \<Rightarrow> map parseRule (map_items v)),
      Behavior = as_string (jget m ''behavior''),
      Mode = as_string (jget m ''mode''),
      Directories = (case as_list (jget m ''directories'') of
                       None \<Rightarrow> []
                     | Some v \<Rightarrow> string_items v),
      Destination = as_string (jget m ''destination'')\<rparr>"

record ToolPermissionContext =
  Suggestions :: "PermissionUpdate list"

text \<open>
  The sealed interface \<open>PermissionResult\<close>: its two implementations, and \<open>OtherResult\<close>
  for any other dynamic type (the string is what \<open>%T\<close> prints, \<open><nil>\<close> for nil).
  A nil map or slice is \<open>None\<close>. A result that is a nil pointer of one of the two
  types, which the handler would dereference, is not a value of the model.

  A permission callback receives the input map itself, not a copy, and may change it
  before it returns. So the model of a callback gives, beside what the callback
  returns, the content of that map at its return: the input it was given, for a
  callback that changes nothing.
\<close>

datatype PermissionResult =
    PermissionResultAllow "jmap option" "PermissionUpdate list option"
  | PermissionResultDeny string bool
  | OtherResult string

type_synonym CanUseToolFunc =
  "string \<Rightarrow> jmap \<Rightarrow> ToolPermissionContext \<Rightarrow> (error + PermissionResult) \<times> jmap"

section \<open>The subprocess transport (its state and stdin operations)\<close>

text \<open>
  Of \<open>subprocessTransport\<close> the model keeps the fields that \<open>Write\<close>, \<open>EndInput\<close> and
  \<open>Close\<close> read or write: \<open>process\<close> (nil, created but not started, running, or
  killed and reaped), \<open>stdin\<close> (true while the field is not nil), \<open>ready\<close>,
  \<open>t_cancel\<close> (the field \<open>cancel\<close>: \<open>None\<close> while nil, else whether it has been
  called) and \<open>exitErr\<close>. The child's stdin pipe is held as the transport sees it: the
  lines it has accepted, how often \<open>Close()\<close> was called on it, and the results the
  operating system gives to a write and to a close. A line is held as the JSON value
  that \<open>json.Marshal\<close> serialises, the trailing newline left out.
\<close>

datatype proc = ProcNil | ProcUnstarted | ProcRunning | ProcReaped

record subprocessTransport =
  process :: proc
  stdin :: bool
  ready :: bool
  t_cancel :: "bool option"
  exitErr :: "error option"
  pipe_lines :: "json list"
  pipe_closes :: nat
  pipe_writeErr :: "error option"
  pipe_closeErr :: "error option"

definition LastError :: "subprocessTransport \<Rightarrow> error option" where
  "LastError t = exitErr t"

definition Write :: "subprocessTransport \<Rightarrow> json \<Rightarrow> subprocessTransport \<times> error option" where
  "Write t data =
     (if \<not> ready t \<or> \<not> stdin t then
        (t, Some (CLIConnectionError ''Transport is not ready for writing'' None))
      else case LastError t of
        Some exitE \<Rightarrow>
          (t, Some (CLIConnectionError ''Cannot write to process that exited with error'' (Some exitE)))
      | None \<Rightarrow>
          (case pipe_writeErr t of
             Some e \<Rightarrow>
               (t\<lparr>ready := False\<rparr>,
                Some (CLIConnectionError ''Failed to write to process stdin'' (Some e)))
           | None \<Rightarrow> (t\<lparr>pipe_lines := pipe_lines t @ [data]\<rparr>, None)))"

definition EndInput :: "subprocessTransport \<Rightarrow> subprocessTransport \<times> error option" where
  "EndInput t =
     (if stdin t then (t\<lparr>pipe_closes := Suc (pipe_closes t), stdin := False\<rparr>, pipe_closeErr t)
      else (t, None))"

definition Close :: "subprocessTransport \<Rightarrow> subprocessTransport \<times> error option" where
  "Close t =
     (let t = t\<lparr>ready := False\<rparr>;
          t = (if stdin t then t\<lparr>pipe_closes := Suc (pipe_closes t), stdin := False\<rparr> else t);
          t = (case t_cancel t of None \<Rightarrow> t | Some _ \<Rightarrow> t\<lparr>t_cancel := Some True\<rparr>);
          t = (if process t = ProcRunning \<or> process t = ProcReaped
               then t\<lparr>process := ProcReaped\<rparr> else t)
      in (t, None))"

section \<open>The query handler: state\<close>

text \<open>
  The hook types. A pointer field (\<open>*bool\<close>, \<open>*int\<close>, a pointer to a struct) and a
  map or slice that may be nil are options; \<open>ToolResponse\<close> of type \<open>any\<close> is a JSON
  value, \<open>JNull\<close> for nil. The \<open>HookContext\<close> that a callback also receives is
  always the zero value and is left out, as is the context's \<open>Signal\<close> of a
  permission callback.
\<close>

record HookInput =
  hi_SessionID :: string
  hi_TranscriptPath :: string
  hi_Cwd :: string
  hi_PermissionMode :: string
  hi_HookEventName :: string
  hi_ToolName :: string
  hi_ToolInput :: "jmap option"
  hi_ToolUseID :: string
  hi_ToolResponse :: json
  hi_ErrorMsg :: string
  hi_IsInterrupt :: "bool option"
  hi_Prompt :: string
  hi_StopHookActive :: bool
  hi_AgentID :: string
  hi_AgentTranscriptPath :: string
  hi_AgentType :: string
  hi_Trigger :: string
  hi_CustomInstructions :: string
  hi_NotificationMessage :: string
  hi_Title :: string
  hi_NotificationType :: string
  hi_PermissionSuggestions :: "json list option"

record HookSpecificOutput =
  hso_HookEventName :: string
  hso_PermissionDecision :: string
  hso_PermissionDecisionReason :: string
  hso_UpdatedInput :: "jmap option"
  hso_UpdatedMCPToolOutput :: json
  hso_AdditionalContext :: string
  hso_Decision :: "jmap option"

record HookJSONOutput =
  ho_Async :: "bool option"
  ho_AsyncTimeout :: "int option"
  ho_Continue :: "bool option"
  ho_SuppressOutput :: "bool option"
  ho_StopReason :: string
  ho_Decision :: string
  ho_SystemMessage :: string
  ho_Reason :: string
  ho_HookSpecificOutput :: "HookSpecificOutput option"

type_synonym HookCallback = "HookInput \<Rightarrow> string \<Rightarrow> error + HookJSONOutput option"

fun as_bool :: "json \<Rightarrow> bool option" where
  "as_bool (JBool b) = Some b"
| "as_bool _ = None"

definition zeroHookInput :: HookInput where
  "zeroHookInput =
     \<lparr>hi_SessionID = [], hi_TranscriptPath = [], hi_Cwd = [], hi_PermissionMode = [],
      hi_HookEventName = [], hi_ToolName = [], hi_ToolInput = None, hi_ToolUseID = [],
      hi_ToolResponse = JNull, hi_ErrorMsg = [], hi_IsInterrupt = None, hi_Prompt = [],
      hi_StopHookActive = False, hi_AgentID = [], hi_AgentTranscriptPath = [], hi_AgentType = [],
      hi_Trigger = [], hi_CustomInstructions = [], hi_NotificationMessage = [], hi_Title = [],
      hi_NotificationType = [], hi_PermissionSuggestions = None\<rparr>"

definition parseHookInput :: "jmap \<Rightarrow> HookInput" where
  "parseHookInput m =
     \<lparr>hi_SessionID = as_string (jget m ''session_id''),
      hi_TranscriptPath = as_string (jget m ''transcript_path''),
      hi_Cwd = as_string (jget m ''cwd''),
      hi_PermissionMode = as_string (jget m ''permission_mode''),
      hi_HookEventName = as_string (jget m ''hook_event_name''),
      hi_ToolName = as_string (jget m ''tool_name''),
      hi_ToolInput = as_map (jget m ''tool_input''),
      hi_ToolUseID = as_string (jget m ''tool_use_id''),
      hi_ToolResponse = jget m ''tool_response'',
      hi_ErrorMsg = as_string (jget m ''error''),
      hi_IsInterrupt = as_bool (jget m ''is_interrupt''),
      hi_Prompt = as_string (jget m ''prompt''),
      hi_StopHookActive = (case as_bool (jget m ''stop_hook_active'') of Some v \<Rightarrow> v | None \<Rightarrow> False),
      hi_AgentID = as_string (jget m ''agent_id''),
      hi_AgentTranscriptPath = as_string (jget m ''agent_transcript_path''),
      hi_AgentType = as_string (jget m ''agent_type''),
      hi_Trigger = as_string (jget m ''trigger''),
      hi_CustomInstructions = as_string (jget m ''custom_instructions''),
      hi_NotificationMessage = as_string (jget m ''message''),
      hi_Title = as_string (jget m ''title''),
      hi_NotificationType = as_string (jget m ''notification_type''),
      hi_PermissionSuggestions = as_list (jget m ''permission_suggestions'')\<rparr>"

definition set_if :: "bool \<Rightarrow> string \<Rightarrow> json \<Rightarrow> jmap \<Rightarrow> jmap" where
  "set_if c k v m = (if c then jset k v m else m)"

definition set_some :: "string \<Rightarrow> json option \<Rightarrow> jmap \<Rightarrow> jmap" where
  "set_some k vo m = (case vo of None \<Rightarrow> m | Some v \<Rightarrow> jset k v m)"

definition convertHookSpecificOutput :: "HookSpecificOutput \<Rightarrow> jmap" where
  "convertHookSpecificOutput h =
     (let hso = [(''hookEventName'', JStr (hso_HookEventName h))];
          hso = set_if (hso_PermissionDecision h \<noteq> []) ''permissionDecision''
                  (JStr (hso_PermissionDecision h)) hso;
          hso = set_if (hso_PermissionDecisionReason h \<noteq> []) ''permissionDecisionReason''
                  (JStr (hso_PermissionDecisionReason h)) hso;
          hso = set_some ''updatedInput'' (map_option JObj (hso_UpdatedInput h)) hso;
          hso = set_if (hso_UpdatedMCPToolOutput h \<noteq> JNull) ''updatedMCPToolOutput''
                  (hso_UpdatedMCPToolOutput h) hso;
          hso = set_if (hso_AdditionalContext h \<noteq> []) ''additionalContext''
                  (JStr (hso_AdditionalContext h)) hso
      in set_some ''decision'' (map_option JObj (hso_Decision h)) hso)"

definition convertHookOutputForCLI :: "HookJSONOutput \<Rightarrow> jmap" where
  "convertHookOutputForCLI output =
     (let result = [];
          result = set_some ''async'' (map_option JBool (ho_Async output)) result;
          result = set_some ''asyncTimeout'' (map_option (\<lambda>n. JNum (of_int n)) (ho_AsyncTimeout output)) result;
          result = set_some ''continue'' (map_option JBool (ho_Continue output)) result;
          result = set_some ''suppressOutput'' (map_option JBool (ho_SuppressOutput output)) result;
          result = set_if (ho_StopReason output \<noteq> []) ''stopReason'' (JStr (ho_StopReason output)) result;
          result = set_if (ho_Decision output \<noteq> []) ''decision'' (JStr (ho_Decision output)) result;
          result = set_if (ho_SystemMessage output \<noteq> []) ''systemMessage''
                     (JStr (ho_SystemMessage output)) result;
          result = set_if (ho_Reason output \<noteq> []) ''reason'' (JStr (ho_Reason output)) result
      in set_some ''hookSpecificOutput''
           (map_option (JObj \<circ> convertHookSpecificOutput) (ho_HookSpecificOutput output)) result)"


record hookMatcherConfig =
  hm_Matcher :: string
  hm_Hooks :: "HookCallback list"
  hm_Timeout :: "real option"


record queryOptions =
  qo_CanUseTool :: "CanUseToolFunc option"
  qo_Hooks :: "(string \<times> hookMatcherConfig list) list"
  qo_SdkMcpServers :: "(string \<times> McpServer) list"
  InitializeTimeout :: float64
  qo_Agents :: "(string \<times> jmap) list"

text \<open>
  \<open>pendingRequest\<close>: \<open>pr_done\<close> says that the channel \<open>done\<close> is closed.
\<close>

record pendingRequest =
  pr_done :: bool
  pr_result :: "jmap option"
  pr_err :: "error option"

datatype reader_state = NotStarted | Reading | Exited

text \<open>
  The handler. Channels are held by what they have carried: \<open>msgChan\<close> is the sequence
  of values sent on the conversation-message channel so far and \<open>msgChanRecv\<close> the
  number of them that the consumer has received; the values in between are in the
  channel's buffer, which holds 100 (\<open>room\<close> below). \<open>msgChanClosed\<close> says that the
  channel is closed, \<open>firstResult\<close> that \<open>firstResultChan\<close> is closed. \<open>cancel\<close> is \<open>None\<close> while the
  field is nil and \<open>Some called\<close> after \<open>start\<close>; \<open>ctxErr\<close> is \<open>Err()\<close> of the
  reader's context (\<open>None\<close> while it is not cancelled); \<open>reader\<close> is the state of the
  goroutine that \<open>wg\<close> waits for. Maps iterated with \<open>range\<close> are association lists,
  their order the order of iteration.
\<close>

record queryHandler =
  transport :: subprocessTransport
  canUseTool :: "CanUseToolFunc option"
  hooks :: "(string \<times> hookMatcherConfig list) list"
  sdkMcpServers :: "(string \<times> McpServer) list"
  agents :: "(string \<times> jmap) list"
  pendingRequests :: "string \<rightharpoonup> pendingRequest"
  hookCallbacks :: "(string \<times> HookCallback) list"
  nextCallbackID :: nat
  requestCounter :: nat
  msgChan :: "jmap list"
  msgChanRecv :: nat
  msgChanClosed :: bool
  cancel :: "bool option"
  ctxErr :: "error option"
  reader :: reader_state
  closed :: bool
  firstResult :: bool
  streamCloseTimeout :: float64
  initializeTimeout :: float64
  initResult :: "jmap option"
  readErr :: "error option"

text \<open>
  \<open>newQueryHandler\<close>. The environment is read through two parameters: \<open>envVal\<close> is
  \<open>os.Getenv("CLAUDE_CODE_STREAM_CLOSE_TIMEOUT")\<close> (empty when the variable is unset)
  and \<open>ParseFloat\<close> is \<open>strconv.ParseFloat(_, 64)\<close>, \<open>None\<close> when it returns an
  error. It parses \<open>NaN\<close> and \<open>Inf\<close> without error.
\<close>

definition newQueryHandler ::
  "(string \<Rightarrow> float64 option) \<Rightarrow> string \<Rightarrow> subprocessTransport \<Rightarrow> queryOptions \<Rightarrow> queryHandler" where
  "newQueryHandler ParseFloat envVal tr opts =
     (let timeout = InitializeTimeout opts;
          timeout = (if f64_le timeout (Fin 0) then Fin 60 else timeout);
          sct = (if envVal \<noteq> [] then
                   (case ParseFloat envVal of Some ms \<Rightarrow> f64_div ms 1000 | None \<Rightarrow> Fin 60)
                 else Fin 60)
      in \<lparr>transport = tr,
          canUseTool = qo_CanUseTool opts,
          hooks = qo_Hooks opts,
          sdkMcpServers = qo_SdkMcpServers opts,
          agents = qo_Agents opts,
          pendingRequests = Map.empty,
          hookCallbacks = [],
          nextCallbackID = 0,
          requestCounter = 0,
          msgChan = [],
          msgChanRecv = 0,
          msgChanClosed = False,
          cancel = None,
          ctxErr = None,
          reader = NotStarted,
          closed = False,
          firstResult = False,
          streamCloseTimeout = sct,
          initializeTimeout = timeout,
          initResult = None,
          readErr = None\<rparr>)"

definition resolveInitializeTimeout :: "(string \<Rightarrow> float64 option) \<Rightarrow> string \<Rightarrow> float64" where
  "resolveInitializeTimeout ParseFloat raw =
     (let minTimeoutSeconds = Fin 60
      in if raw = [] then minTimeoutSeconds
         else case ParseFloat raw of
           None \<Rightarrow> minTimeoutSeconds
         | Some ms \<Rightarrow>
             (let timeoutSeconds = f64_div ms 1000
              in if f64_less timeoutSeconds minTimeoutSeconds then minTimeoutSeconds
                 else timeoutSeconds))"

definition start :: "queryHandler \<Rightarrow> queryHandler" where
  "start q = q\<lparr>cancel := Some False, reader := Reading\<rparr>"

section \<open>Terminal error, pending requests, the message channel\<close>

definition setReadError :: "error option \<Rightarrow> queryHandler \<Rightarrow> queryHandler" where
  "setReadError e q =
     (case e of None \<Rightarrow> q
      | Some _ \<Rightarrow> (if readErr q = None then q\<lparr>readErr := e\<rparr> else q))"

definition err :: "queryHandler \<Rightarrow> error option" where
  "err q = readErr q"

definition failPending :: "error \<Rightarrow> pendingRequest \<Rightarrow> pendingRequest" where
  "failPending e pending =
     (let pending = (if pr_err pending = None then pending\<lparr>pr_err := Some e\<rparr> else pending)
      in pending\<lparr>pr_done := True\<rparr>)"

definition failPendingRequests :: "error option \<Rightarrow> queryHandler \<Rightarrow> queryHandler" where
  "failPendingRequests e q =
     (case e of None \<Rightarrow> q
      | Some e' \<Rightarrow> q\<lparr>pendingRequests := map_option (failPending e') \<circ> pendingRequests q\<rparr>)"

text \<open>
  The message channel is made with a buffer of 100. \<open>room\<close>: the buffer is not full,
  a send proceeds at once. A send on a full channel blocks until the consumer receives:
  \<open>send\<close> is the send that has gone through, after the consumer has received the
  oldest value if there was no room.

  A \<open>select\<close> between a send and \<open>ctx.Done()\<close> (in \<open>pushErrorMessage\<close>, and for a
  conversation message in the reader loop) takes the send when the channel has room,
  or after the consumer has made room; it takes \<open>ctx.Done()\<close> when the context is
  cancelled (\<open>ctxDone\<close>) and the channel is full, and Go chooses at random when both
  can proceed: \<open>pickCtx\<close> says that it chooses \<open>ctx.Done()\<close>. \<open>takes_Done\<close> is the
  condition under which the \<open>ctx.Done()\<close> case is the one taken and nothing is sent.
  With the context not cancelled and the channel full the \<open>select\<close> blocks: the ways
  it then ends are the send, once the consumer has received, and a cancellation that
  arrives first (the stalled turns of the reader loop below).
\<close>

definition errorMessage :: "error \<Rightarrow> jmap" where
  "errorMessage e = [(''type'', JStr ''error''), (''error'', JStr (Error e))]"

definition room :: "queryHandler \<Rightarrow> bool" where
  "room q = (length (msgChan q) < msgChanRecv q + 100)"

definition send :: "jmap \<Rightarrow> queryHandler \<Rightarrow> queryHandler" where
  "send v q =
     q\<lparr>msgChan := msgChan q @ [v],
       msgChanRecv := (if room q then msgChanRecv q else Suc (length (msgChan q)) - 100)\<rparr>"

definition takes_Done :: "bool \<Rightarrow> bool \<Rightarrow> queryHandler \<Rightarrow> bool" where
  "takes_Done ctxDone pickCtx q = (ctxDone \<and> (pickCtx \<or> \<not> room q))"

definition pushErrorMessage :: "bool \<Rightarrow> bool \<Rightarrow> error option \<Rightarrow> queryHandler \<Rightarrow> queryHandler" where
  "pushErrorMessage ctxDone pickCtx e q =
     (case e of None \<Rightarrow> q
      | Some e' \<Rightarrow>
          (if takes_Done ctxDone pickCtx q then q
           else send (errorMessage e') q))"

section \<open>Inbound control requests\<close>

definition request_input :: "jmap \<Rightarrow> jmap" where
  "request_input request = map_or_empty (as_map (jget request ''input''))"

definition canUseTool_call :: "CanUseToolFunc \<Rightarrow> jmap \<Rightarrow> (error + PermissionResult) \<times> jmap" where
  "canUseTool_call callback request =
     (let toolName = as_string (jget request ''tool_name'');
          input = request_input request;
          suggestions = (case as_list (jget request ''permission_suggestions'') of
                           None \<Rightarrow> []
                         | Some rawSuggestions \<Rightarrow>
                             map parsePermissionUpdate (map_items rawSuggestions));
          permCtx = \<lparr>Suggestions = suggestions\<rparr>
      in callback toolName input permCtx)"

definition handleCanUseTool :: "queryHandler \<Rightarrow> jmap \<Rightarrow> error + jmap" where
  "handleCanUseTool q request =
     (case canUseTool q of
        None \<Rightarrow> Inl (Errorf ''canUseTool callback is not provided'')
      | Some callback \<Rightarrow>
          (let called = canUseTool_call callback request;
               input = snd called
           in case fst called of
                Inl e \<Rightarrow> Inl e
              | Inr (PermissionResultAllow updatedInput updatedPermissions) \<Rightarrow>
                  (let resp = [(''behavior'', JStr ''allow'')];
                       resp = (case updatedInput of
                                 Some u \<Rightarrow> jset ''updatedInput'' (JObj u) resp
                               | None \<Rightarrow> jset ''updatedInput'' (JObj input) resp);
                       resp = (case updatedPermissions of
                                 Some perms \<Rightarrow>
                                   jset ''updatedPermissions'' (JArr (map (JObj \<circ> ToDict) perms)) resp
                               | None \<Rightarrow> resp)
                   in Inr resp)
              | Inr (PermissionResultDeny message interrupt) \<Rightarrow>
                  (let resp = [(''behavior'', JStr ''deny''), (''message'', JStr message)];
                       resp = (if interrupt then jset ''interrupt'' (JBool True) resp else resp)
                   in Inr resp)
              | Inr (OtherResult tyname) \<Rightarrow>
                  Inl (Errorf (''unexpected permission result type: '' @ tyname))))"

definition handleHookCallback :: "queryHandler \<Rightarrow> jmap \<Rightarrow> error + jmap" where
  "handleHookCallback q request =
     (let callbackID = as_string (jget request ''callback_id'')
      in case map_of (hookCallbacks q) callbackID of
           None \<Rightarrow> Inl (Errorf (''no hook callback found for ID: '' @ callbackID))
         | Some callback \<Rightarrow>
             (let hookInput = (case as_map (jget request ''input'') of
                                 Some rawInput \<Rightarrow> parseHookInput rawInput
                               | None \<Rightarrow> zeroHookInput);
                  toolUseID = as_string (jget request ''tool_use_id'')
              in case callback hookInput toolUseID of
                   Inl e \<Rightarrow> Inl e
                 | Inr None \<Rightarrow> Inr []
                 | Inr (Some output) \<Rightarrow> Inr (convertHookOutputForCLI output)))"

definition handleMcpMessage :: "queryHandler \<Rightarrow> jmap \<Rightarrow> error + jmap" where
  "handleMcpMessage q request =
     (let serverName = as_string (jget request ''server_name'')
      in case as_map (jget request ''message'') of
           None \<Rightarrow> Inl (Errorf ''missing server_name or message for MCP request'')
         | Some message \<Rightarrow>
             (if serverName = [] then Inl (Errorf ''missing server_name or message for MCP request'')
              else case map_of (sdkMcpServers q) serverName of
                None \<Rightarrow>
                  Inr [(''mcp_response'', JObj
                         [(''jsonrpc'', JStr ''2.0''),
                          (''id'', jget message ''id''),
                          (''error'', JObj
                             [(''code'', JNum (- 32601)),
                              (''message'', JStr (''Server '' @ quoted serverName @ '' not found''))])])]
              | Some server \<Rightarrow> Inr [(''mcp_response'', JObj (HandleRequest server message))]))"

definition control_response :: "string \<Rightarrow> error + jmap \<Rightarrow> jmap" where
  "control_response requestID r =
     (case r of
        Inl e \<Rightarrow>
          [(''type'', JStr ''control_response''),
           (''response'', JObj [(''subtype'', JStr ''error''),
                                (''request_id'', JStr requestID),
                                (''error'', JStr (Error e))])]
      | Inr responseData \<Rightarrow>
          [(''type'', JStr ''control_response''),
           (''response'', JObj [(''subtype'', JStr ''success''),
                                (''request_id'', JStr requestID),
                                (''response'', JObj responseData)])])"

definition dispatch :: "queryHandler \<Rightarrow> jmap \<Rightarrow> error + jmap" where
  "dispatch q request =
     (let subtype = as_string (jget request ''subtype'')
      in if subtype = ''can_use_tool'' then handleCanUseTool q request
         else if subtype = ''hook_callback'' then handleHookCallback q request
         else if subtype = ''mcp_message'' then handleMcpMessage q request
         else Inl (Errorf (''unsupported control request subtype: '' @ subtype)))"

definition handleControlRequest :: "queryHandler \<Rightarrow> jmap \<Rightarrow> queryHandler" where
  "handleControlRequest q msg =
     (let requestID = as_string (jget msg ''request_id'')
      in case as_map (jget msg ''request'') of
           None \<Rightarrow> q
         | Some request \<Rightarrow>
             (if requestID = [] then q
              else (let response = control_response requestID (dispatch q request)
                    in q\<lparr>transport := fst (Write (transport q) (JObj response))\<rparr>)))"

section \<open>The reader loop\<close>

text \<open>
  One turn of the \<open>for { select { ... } }\<close> of \<open>readMessages\<close> is one
  \<open>reader_event\<close>: the case of the \<open>select\<close> that was taken and what it received, the
  turn taken to its end. The Boolean beside it is the random choice of a nested
  \<open>select\<close> whose two cases can both proceed (see \<open>takes_Done\<close>). \<open>CtxDone\<close> can
  only be taken when the reader's context is cancelled; the model leaves the state as
  it is for an event that cannot be taken, and a reader that is not running takes no
  turn. A dispatcher started with \<open>go\<close> runs to its end at the point where it is
  started.

  A turn whose send finds the channel full while the context is not cancelled
  (\<open>stalled\<close>) blocks in the nested \<open>select\<close>. It ends by the send when the consumer
  receives first: that is the plain event. It ends by \<open>ctx.Done()\<close> when the reader's
  context is cancelled first, with \<open>Err() = ce\<close>: these are the events
  \<open>StalledErrRecv e ce\<close>, \<open>StalledMsgClosed ce\<close> and \<open>StalledMsgRecv msg ce\<close>, which
  hold the cancellation that ends them (\<open>ctx_cancel\<close>). Nothing is sent in them and
  the reader returns.
\<close>

datatype reader_event =
    CtxDone
  | ErrClosed
  | ErrRecv "error option"
  | MsgClosed
  | MsgRecv jmap
  | StalledErrRecv error error
  | StalledMsgClosed error
  | StalledMsgRecv jmap error

definition reader_return :: "queryHandler \<Rightarrow> queryHandler" where
  "reader_return q = q\<lparr>msgChanClosed := True, reader := Exited\<rparr>"

definition ctx_cancel :: "error \<Rightarrow> queryHandler \<Rightarrow> queryHandler" where
  "ctx_cancel ce q = (case ctxErr q of None \<Rightarrow> q\<lparr>ctxErr := Some ce\<rparr> | Some _ \<Rightarrow> q)"

definition stalled :: "queryHandler \<Rightarrow> bool" where
  "stalled q = (\<not> room q \<and> ctxErr q = None)"

definition complete_pending :: "queryHandler \<Rightarrow> jmap \<Rightarrow> queryHandler" where
  "complete_pending q msg =
     (case as_map (jget msg ''response'') of
        None \<Rightarrow> q
      | Some response \<Rightarrow>
          (let requestID = as_string (jget response ''request_id'')
           in if requestID = [] then q
              else case pendingRequests q requestID of
                None \<Rightarrow> q
              | Some pending \<Rightarrow>
                  (let subtype = as_string (jget response ''subtype'');
                       pending = (if subtype = ''error''
                                  then pending\<lparr>pr_err := Some (Errorf (as_string (jget response ''error'')))\<rparr>
                                  else pending\<lparr>pr_result := Some response\<rparr>)
                   in q\<lparr>pendingRequests := (pendingRequests q)(requestID \<mapsto> pending\<lparr>pr_done := True\<rparr>)\<rparr>)))"

text \<open>
  \<open>store_failure\<close> is \<open>setReadError(err)\<close> followed by \<open>failPendingRequests(err)\<close>,
  which the reader calls before \<open>pushErrorMessage\<close>: it is the state in which the
  send is attempted, and in which the reader stays while the send is blocked.
\<close>

definition store_failure :: "error \<Rightarrow> queryHandler \<Rightarrow> queryHandler" where
  "store_failure e q = failPendingRequests (Some e) (setReadError (Some e) q)"

definition terminal_failure :: "bool \<Rightarrow> bool \<Rightarrow> error \<Rightarrow> queryHandler \<Rightarrow> queryHandler" where
  "terminal_failure ctxDone pickCtx e q =
     pushErrorMessage ctxDone pickCtx (Some e) (store_failure e q)"

definition readMessages_step :: "queryHandler \<Rightarrow> reader_event \<times> bool \<Rightarrow> queryHandler" where
  "readMessages_step q ev =
     (if reader q \<noteq> Reading then q
      else case fst ev of
        CtxDone \<Rightarrow>
          (case ctxErr q of
             None \<Rightarrow> q
           | Some e \<Rightarrow>
               reader_return (if \<not> closed q then terminal_failure False (snd ev) e q else q))
      | ErrClosed \<Rightarrow> q
      | ErrRecv None \<Rightarrow> q
      | ErrRecv (Some e) \<Rightarrow>
          reader_return (terminal_failure (ctxErr q \<noteq> None) (snd ev) e q)
      | MsgClosed \<Rightarrow>
          (case LastError (transport q) of
             Some e \<Rightarrow> reader_return (terminal_failure (ctxErr q \<noteq> None) (snd ev) e q)
           | None \<Rightarrow> reader_return q)
      | MsgRecv msg \<Rightarrow>
          (if closed q then reader_return q
           else (let msgType = as_string (jget msg ''type'')
                 in if msgType = ''control_response'' then complete_pending q msg
                    else if msgType = ''control_request'' then handleControlRequest q msg
                    else if msgType = ''control_cancel_request'' then q
                    else (let q = (if msgType = ''result'' then q\<lparr>firstResult := True\<rparr> else q)
                          in if takes_Done (ctxErr q \<noteq> None) (snd ev) q then reader_return q
                             else send msg q)))
      | StalledErrRecv e ce \<Rightarrow>
          (if stalled q then reader_return (ctx_cancel ce (store_failure e q)) else q)
      | StalledMsgClosed ce \<Rightarrow>
          (case LastError (transport q) of
             Some e \<Rightarrow> (if stalled q then reader_return (ctx_cancel ce (store_failure e q)) else q)
           | None \<Rightarrow> q)
      | StalledMsgRecv msg ce \<Rightarrow>
          (if closed q \<or> \<not> stalled q then q
           else (let msgType = as_string (jget msg ''type'')
                 in if msgType = ''control_response'' \<or> msgType = ''control_request'' \<or>
                       msgType = ''control_cancel_request'' then q
                    else (let q = (if msgType = ''result'' then q\<lparr>firstResult := True\<rparr> else q)
                          in reader_return (ctx_cancel ce q)))))"

definition readMessages :: "queryHandler \<Rightarrow> (reader_event \<times> bool) list \<Rightarrow> queryHandler" where
  "readMessages q evs = foldl readMessages_step q evs"

section \<open>Closing the handler\<close>

definition call_cancel :: "queryHandler \<Rightarrow> queryHandler" where
  "call_cancel q =
     q\<lparr>cancel := Some True,
       ctxErr := (case ctxErr q of None \<Rightarrow> Some (CtxError ''context canceled'') | Some e \<Rightarrow> Some e)\<rparr>"

text \<open>
  \<open>wg.Wait()\<close> returns when the reader has returned. The reader takes the turns
  \<open>evs\<close> that the transport still offers it and, if it is still running after them,
  the \<open>ctx.Done()\<close> case.
\<close>

definition wg_Wait :: "queryHandler \<Rightarrow> (reader_event \<times> bool) list \<Rightarrow> queryHandler" where
  "wg_Wait q evs =
     (let q = readMessages q evs
      in if reader q = Reading then readMessages_step q (CtxDone, False) else q)"

definition close :: "queryHandler \<Rightarrow> (reader_event \<times> bool) list \<Rightarrow> queryHandler" where
  "close q evs =
     (let q = q\<lparr>closed := True\<rparr>;
          q = failPendingRequests (Some (Errorf ''query handler closed'')) q;
          q = (case cancel q of None \<Rightarrow> q | Some _ \<Rightarrow> call_cancel q);
          q = wg_Wait q evs
      in q\<lparr>transport := fst (Close (transport q))\<rparr>)"

section \<open>Outbound control requests\<close>

text \<open>
  \<open>digits\<close> is \<open>%d\<close> of a counter that is never negative.
\<close>

fun digits :: "nat \<Rightarrow> string" where
  "digits n = (if n < 10 then [char_of (48 + n)]
               else digits (n div 10) @ [char_of (48 + n mod 10)])"

declare digits.simps [simp del]

text \<open>
  While \<open>sendControlRequest\<close> waits in its \<open>select\<close>, the other goroutines go on:
  the reader takes turns, somebody may call \<open>close\<close>, the parent context of the
  reader may be cancelled, the consumer of the message channel may receive a value.
  These are the \<open>activity\<close> values, run in the order given.
  \<open>wake\<close> is the case of the \<open>select\<close> that is taken: \<open>PendingDone\<close> can only be taken
  when \<open>pending.done\<close> is closed, \<open>TimerFired d\<close> (\<open>d\<close> seconds after the timer was
  created) only when the timer can have fired (\<open>timer_due\<close>), \<open>CallerCtxDone e\<close> when
  the caller's context is cancelled with \<open>Err() = e\<close>. The result is \<open>None\<close> when the
  case asked for cannot be taken: such a schedule is not a run of the program.

  Every \<open>return\<close> of the function is a constructor of \<open>send_error\<close> or the success
  body; \<open>go_error\<close> is the Go error value returned.
\<close>

datatype activity =
    ReaderTurn "reader_event \<times> bool"
  | HandlerClose "(reader_event \<times> bool) list"
  | ParentCancelled error
  | ConsumerReceives

definition receive :: "queryHandler \<Rightarrow> queryHandler" where
  "receive q = (if msgChanRecv q < length (msgChan q) then q\<lparr>msgChanRecv := Suc (msgChanRecv q)\<rparr> else q)"

definition run_activity :: "queryHandler \<Rightarrow> activity \<Rightarrow> queryHandler" where
  "run_activity q a =
     (case a of
        ReaderTurn ev \<Rightarrow> readMessages_step q ev
      | HandlerClose evs \<Rightarrow> close q evs
      | ParentCancelled e \<Rightarrow> ctx_cancel e q
      | ConsumerReceives \<Rightarrow> receive q)"

definition run :: "queryHandler \<Rightarrow> activity list \<Rightarrow> queryHandler" where
  "run q acts = foldl run_activity q acts"

datatype send_error =
    Terminal error
  | WriteFailed error
  | Failed error
  | TimedOut string
  | Cancelled error

fun go_error :: "send_error \<Rightarrow> error" where
  "go_error (Terminal e) = e"
| "go_error (WriteFailed e) = e"
| "go_error (Failed e) = e"
| "go_error (TimedOut subtype) = Errorf (''control request timeout: '' @ subtype)"
| "go_error (Cancelled e) = e"

datatype wake = PendingDone | TimerFired real | CallerCtxDone error

definition requestID_of :: "nat \<Rightarrow> string \<Rightarrow> string" where
  "requestID_of counter randHex = ''req_'' @ digits counter @ ''_'' @ randHex"

definition Delete :: "string \<Rightarrow> queryHandler \<Rightarrow> queryHandler" where
  "Delete requestID q = q\<lparr>pendingRequests := (pendingRequests q)(requestID := None)\<rparr>"

definition await ::
  "queryHandler \<Rightarrow> string \<Rightarrow> jmap \<Rightarrow> float64 \<Rightarrow> wake \<Rightarrow> (queryHandler \<times> (send_error + jmap)) option" where
  "await q requestID request timeout w =
     (case w of
        PendingDone \<Rightarrow>
          (case pendingRequests q requestID of
             None \<Rightarrow> None
           | Some pending \<Rightarrow>
               (if \<not> pr_done pending then None
                else case pr_err pending of
                  Some e \<Rightarrow> Some (Delete requestID q, Inl (Failed e))
                | None \<Rightarrow>
                    Some (Delete requestID q,
                          Inr (map_or_empty (as_map (jget (map_or_empty (pr_result pending)) ''response''))))))
      | TimerFired d \<Rightarrow>
          (if timer_due timeout d
           then Some (Delete requestID q, Inl (TimedOut (as_string (jget request ''subtype''))))
           else None)
      | CallerCtxDone e \<Rightarrow> Some (Delete requestID q, Inl (Cancelled e)))"

text \<open>
  \<open>issue\<close> is the body of \<open>sendControlRequest\<close> from the allocation of the request
  id to the write: the handler afterwards, the request id, and the result of the write.
\<close>

definition issue :: "queryHandler \<Rightarrow> jmap \<Rightarrow> string \<Rightarrow> queryHandler \<times> string \<times> error option" where
  "issue q request randHex =
     (let counter = requestCounter q + 1;
          q = q\<lparr>requestCounter := counter\<rparr>;
          requestID = requestID_of counter randHex;
          pending = \<lparr>pr_done = False, pr_result = None, pr_err = None\<rparr>;
          q = q\<lparr>pendingRequests := (pendingRequests q)(requestID \<mapsto> pending)\<rparr>;
          controlRequest = [(''type'', JStr ''control_request''),
                            (''request_id'', JStr requestID),
                            (''request'', JObj request)];
          written = Write (transport q) (JObj controlRequest)
      in (q\<lparr>transport := fst written\<rparr>, requestID, snd written))"

definition sendControlRequest ::
  "queryHandler \<Rightarrow> jmap \<Rightarrow> float64 \<Rightarrow> string \<Rightarrow> activity list \<Rightarrow> wake
     \<Rightarrow> (queryHandler \<times> (send_error + jmap)) option" where
  "sendControlRequest q request timeout randHex acts w =
     (case err q of
        Some e \<Rightarrow> Some (q, Inl (Terminal e))
      | None \<Rightarrow>
          (case issue q request randHex of
             (q1, requestID, Some e) \<Rightarrow> Some (Delete requestID q1, Inl (WriteFailed e))
           | (q1, requestID, None) \<Rightarrow> await (run q1 acts) requestID request timeout w))"

section \<open>Initialize\<close>

fun register_callbacks :: "HookCallback list \<Rightarrow> queryHandler \<Rightarrow> string list \<times> queryHandler" where
  "register_callbacks [] q = ([], q)"
| "register_callbacks (callback # cbs) q =
     (let callbackID = ''hook_'' @ digits (nextCallbackID q);
          q = q\<lparr>nextCallbackID := nextCallbackID q + 1,
                 hookCallbacks := AList.update callbackID callback (hookCallbacks q)\<rparr>;
          rest = register_callbacks cbs q
      in (callbackID # fst rest, snd rest))"

fun matcher_configs :: "hookMatcherConfig list \<Rightarrow> queryHandler \<Rightarrow> jmap list \<times> queryHandler" where
  "matcher_configs [] q = ([], q)"
| "matcher_configs (matcher # ms) q =
     (let ids = register_callbacks (hm_Hooks matcher) q;
          mc = [(''matcher'', JStr (hm_Matcher matcher)),
                (''hookCallbackIds'', JArr (map JStr (fst ids)))];
          mc = (case hm_Timeout matcher of None \<Rightarrow> mc | Some t \<Rightarrow> jset ''timeout'' (JNum t) mc);
          rest = matcher_configs ms (snd ids)
      in (mc # fst rest, snd rest))"

fun hooks_config :: "(string \<times> hookMatcherConfig list) list \<Rightarrow> jmap \<Rightarrow> queryHandler \<Rightarrow> jmap \<times> queryHandler" where
  "hooks_config [] hooksConfig q = (hooksConfig, q)"
| "hooks_config ((event, matchers) # rest) hooksConfig q =
     (if length matchers = 0 then hooks_config rest hooksConfig q
      else (let mcs = matcher_configs matchers q
            in hooks_config rest (jset event (JArr (map JObj (fst mcs))) hooksConfig) (snd mcs)))"

definition agents_json :: "(string \<times> jmap) list \<Rightarrow> json" where
  "agents_json ags = JObj (map (\<lambda>(name, a). (name, JObj a)) ags)"

definition initialize_request :: "queryHandler \<Rightarrow> jmap \<times> queryHandler" where
  "initialize_request q =
     (let hc = hooks_config (hooks q) [] q;
          request = [(''subtype'', JStr ''initialize''), (''hooks'', JObj (fst hc))];
          request = (if length (agents q) > 0 then jset ''agents'' (agents_json (agents q)) request
                     else request)
      in (request, snd hc))"

definition initialize ::
  "queryHandler \<Rightarrow> string \<Rightarrow> activity list \<Rightarrow> wake \<Rightarrow> (queryHandler \<times> (send_error + jmap)) option" where
  "initialize q randHex acts w =
     (let built = initialize_request q
      in case sendControlRequest (snd built) (fst built) (initializeTimeout (snd built)) randHex acts w of
           None \<Rightarrow> None
         | Some (q', Inl e) \<Rightarrow> Some (q', Inl e)
         | Some (q', Inr resp) \<Rightarrow> Some (q'\<lparr>initResult := Some resp\<rparr>, Inr resp))"

section \<open>Forwarding the caller's input\<close>






section \<open>The two facades, up to the launch of the subprocess\<close>

text \<open>
  Of \<open>AgentOptions\<close> the two fields that the permission settings read; the record is
  extensible, so the other fields ride along unchanged. \<open>runQuery\<close> and \<open>Connect\<close>
  are modelled up to the call of \<open>newSubprocessTransport\<close>: \<open>NoLaunch e\<close> says that
  the function reported \<open>e\<close> (on the error channel, or as its result) and returned
  before that call, \<open>Launch opts\<close> that the call is reached with the options \<open>opts\<close>.
\<close>

record AgentOptions =
  CanUseTool :: "CanUseToolFunc option"
  PermissionPromptToolName :: string

datatype 'o launch = NoLaunch error | Launch 'o

definition runQuery :: "string option \<Rightarrow> 'a AgentOptions_scheme \<Rightarrow> 'a AgentOptions_scheme launch" where
  "runQuery prompt options =
     (if CanUseTool options \<noteq> None then
        (if prompt \<noteq> None then
           NoLaunch (SDKError ''can_use_tool callback requires streaming input; use QueryStream instead of Query'' None)
         else if PermissionPromptToolName options \<noteq> [] then
           NoLaunch (SDKError ''can_use_tool callback cannot be used with permission_prompt_tool_name'' None)
         else Launch (options\<lparr>PermissionPromptToolName := ''stdio''\<rparr>))
      else Launch options)"

definition Connect :: "'a AgentOptions_scheme \<Rightarrow> 'a AgentOptions_scheme launch" where
  "Connect options =
     (let configuredOptions = options
      in if CanUseTool configuredOptions \<noteq> None then
           (if PermissionPromptToolName configuredOptions \<noteq> [] then
              NoLaunch (SDKError ''can_use_tool callback cannot be used with permission_prompt_tool_name'' None)
            else Launch (configuredOptions\<lparr>PermissionPromptToolName := ''stdio''\<rparr>))
         else Launch configuredOptions)"

text \<open>
  The handler that \<open>Connect\<close> builds: \<open>newQueryHandler\<close> on options whose
  \<open>InitializeTimeout\<close> is \<open>resolveInitializeTimeout()\<close>.
\<close>

definition Connect_handler ::
  "(string \<Rightarrow> float64 option) \<Rightarrow> string \<Rightarrow> subprocessTransport \<Rightarrow> queryOptions \<Rightarrow> queryHandler" where
  "Connect_handler ParseFloat envVal tr opts =
     newQueryHandler ParseFloat envVal tr
       (opts\<lparr>InitializeTimeout := resolveInitializeTimeout ParseFloat envVal\<rparr>)"

section \<open>Predicates of the statements\<close>

text \<open>
  \<open>writable\<close>: the transport accepts a write. \<open>same_but_registry\<close>: two handlers
  differ at most in the hook-callback registry and its counter. \<open>before_wait\<close> is
  \<open>close\<close> up to \<open>wg.Wait()\<close>; \<open>all_failed\<close> says that every registered request
  has its completion signal closed and an error stored.
\<close>

definition writable :: "subprocessTransport \<Rightarrow> bool" where
  "writable t = (ready t \<and> stdin t \<and> exitErr t = None \<and> pipe_writeErr t = None)"

definition same_but_registry :: "queryHandler \<Rightarrow> queryHandler \<Rightarrow> bool" where
  "same_but_registry q q' =
     (q' = q\<lparr>hookCallbacks := hookCallbacks q', nextCallbackID := nextCallbackID q'\<rparr>)"

definition before_wait :: "queryHandler \<Rightarrow> queryHandler" where
  "before_wait q =
     (let q = q\<lparr>closed := True\<rparr>;
          q = failPendingRequests (Some (Errorf ''query handler closed'')) q
      in case cancel q of None \<Rightarrow> q | Some _ \<Rightarrow> call_cancel q)"

definition all_failed :: "queryHandler \<Rightarrow> bool" where
  "all_failed q = (\<forall>rid p. pendingRequests q rid = Some p \<longrightarrow> pr_done p \<and> pr_err p \<noteq> None)"

text \<open>
  \<open>conversation\<close>: the object is a conversation message, its \<open>type\<close> none of the
  three control types. \<open>arrivals\<close>: the reader's turns in which it receives the
  given objects, one after the other.
\<close>

definition conversation :: "jmap \<Rightarrow> bool" where
  "conversation m =
     (as_string (jget m ''type'') \<notin> {''control_request'', ''control_response'', ''control_cancel_request''})"

definition arrivals :: "(jmap \<times> bool) list \<Rightarrow> (reader_event \<times> bool) list" where
  "arrivals ms = map (\<lambda>mb. (MsgRecv (fst mb), snd mb)) ms"







text \<open>
  The outcomes that the specification lists for an outbound control request, in its
  words and not from the code: a success body, an error stored in the pending record
  (by an error response, or by the handler's terminal failure), a timeout, the caller's
  cancellation, and the stored terminal error. A failed write is not among them.
\<close>

definition claimed_outcome :: "send_error + jmap \<Rightarrow> bool" where
  "claimed_outcome r =
     (case r of
        Inr body \<Rightarrow> True
      | Inl (Failed e) \<Rightarrow> True
      | Inl (TimedOut subtype) \<Rightarrow> True
      | Inl (Cancelled e) \<Rightarrow> True
      | Inl (Terminal e) \<Rightarrow> True
      | Inl (WriteFailed e) \<Rightarrow> False)"

section \<open>Concrete values\<close>

text \<open>
  A transport as \<open>Connect\<close> leaves it, permission callbacks (\<open>denyRm\<close> leaves its
  input as it is, \<open>rewriteCommand\<close> sets \<open>input["command"]\<close> and allows), handlers
  with and without a hook, inbound and outbound messages: the inputs of the evaluations
  below. \<open>msFloat\<close> stands for \<open>strconv.ParseFloat\<close> on the strings used.
\<close>

definition connected :: subprocessTransport where
  "connected = \<lparr>process = ProcRunning, stdin = True, ready = True, t_cancel = Some False,
                 exitErr = None, pipe_lines = [], pipe_closes = 0,
                 pipe_writeErr = None, pipe_closeErr = None\<rparr>"

definition denyRm :: CanUseToolFunc where
  "denyRm toolName input permCtx =
     (if toolName = ''Bash'' \<and> take 2 (as_string (jget input ''command'')) = ''rm''
      then (Inr (PermissionResultDeny ''rm commands are not allowed'' True), input)
      else (Inr (PermissionResultAllow None None), input))"

definition rewriteCommand :: CanUseToolFunc where
  "rewriteCommand toolName input permCtx =
     (Inr (PermissionResultAllow None None), jset ''command'' (JStr ''ls -la'') input)"

definition plainOptions :: queryOptions where
  "plainOptions = \<lparr>qo_CanUseTool = Some denyRm, qo_Hooks = [], qo_SdkMcpServers = [],
                    InitializeTimeout = Fin 60, qo_Agents = []\<rparr>"

definition noFloat :: "string \<Rightarrow> float64 option" where
  "noFloat raw = None"

definition msFloat :: "string \<Rightarrow> float64 option" where
  "msFloat raw =
     (if raw = ''5000'' then Some (Fin 5000)
      else if raw = ''120000'' then Some (Fin 120000)
      else if raw = ''1e13'' then Some (Fin (10 ^ 13))
      else if raw = ''NaN'' then Some NaN
      else if raw = ''Inf'' then Some PosInf
      else None)"

definition boom :: error where
  "boom = Errorf ''transport boom''"

definition handler0 :: queryHandler where
  "handler0 = start (newQueryHandler noFloat [] connected plainOptions)"

definition closedHandler :: queryHandler where
  "closedHandler = close handler0 []"

definition cancelledHandler :: queryHandler where
  "cancelledHandler = run_activity handler0 (ParentCancelled (CtxError ''context canceled''))"

definition rewritingHandler :: queryHandler where
  "rewritingHandler = handler0\<lparr>canUseTool := Some rewriteCommand\<rparr>"

definition exitedHandler :: queryHandler where
  "exitedHandler = handler0\<lparr>transport := connected\<lparr>exitErr := Some boom\<rparr>\<rparr>"





definition listRequest :: jmap where
  "listRequest = [(''jsonrpc'', JStr ''2.0''), (''id'', JNum 7), (''method'', JStr ''tools/list'')]"

definition initializedNotification :: jmap where
  "initializedNotification =
     [(''jsonrpc'', JStr ''2.0''), (''id'', JNum 1), (''method'', JStr ''notifications/initialized'')]"

definition rmRequest :: jmap where
  "rmRequest = [(''subtype'', JStr ''can_use_tool''), (''tool_name'', JStr ''Bash''),
                (''input'', JObj [(''command'', JStr ''rm -rf /'')])]"

definition lsRequest :: jmap where
  "lsRequest = [(''subtype'', JStr ''can_use_tool''), (''tool_name'', JStr ''Bash''),
                (''input'', JObj [(''command'', JStr ''ls'')])]"

definition permissionRequest :: "jmap \<Rightarrow> jmap" where
  "permissionRequest request =
     [(''type'', JStr ''control_request''), (''request_id'', JStr ''p7''), (''request'', JObj request)]"

definition noRequestID :: jmap where
  "noRequestID = [(''type'', JStr ''control_request''), (''request_id'', JNum 5),
                  (''request'', JObj [(''subtype'', JStr ''can_use_tool'')])]"

definition unknownSubtype :: jmap where
  "unknownSubtype = [(''type'', JStr ''control_request''), (''request_id'', JStr ''p1''),
                     (''request'', JObj [(''subtype'', JStr ''bogus'')])]"

definition assistantMsg :: jmap where
  "assistantMsg = [(''type'', JStr ''assistant''),
                   (''message'', JObj [(''model'', JStr ''m''),
                      (''content'', JArr [JObj [(''type'', JStr ''text''), (''text'', JStr ''4'')]])])]"

definition resultMsg :: jmap where
  "resultMsg = [(''type'', JStr ''result''), (''subtype'', JStr ''success''), (''is_error'', JBool False),
                (''num_turns'', JNum 1), (''session_id'', JStr ''s'')]"

definition fullHandler :: queryHandler where
  "fullHandler = handler0\<lparr>msgChan := replicate 100 assistantMsg\<rparr>"

definition cancelMsg :: jmap where
  "cancelMsg = [(''type'', JStr ''control_cancel_request''), (''request_id'', JStr ''x1'')]"

definition strayResponse :: jmap where
  "strayResponse = [(''type'', JStr ''control_response''),
                    (''response'', JObj [(''subtype'', JStr ''success''), (''request_id'', JStr ''req_9_00000000'')])]"

definition successResponse :: "string \<Rightarrow> jmap" where
  "successResponse requestID =
     [(''type'', JStr ''control_response''),
      (''response'', JObj [(''subtype'', JStr ''success''), (''request_id'', JStr requestID),
                           (''response'', JObj [(''ok'', JBool True)])])]"

definition errorResponse :: "string \<Rightarrow> jmap" where
  "errorResponse requestID =
     [(''type'', JStr ''control_response''),
      (''response'', JObj [(''subtype'', JStr ''error''), (''request_id'', JStr requestID),
                           (''error'', JStr ''not now'')])]"

definition interruptRequest :: jmap where
  "interruptRequest = [(''subtype'', JStr ''interrupt'')]"

definition bothOptions :: AgentOptions where
  "bothOptions = \<lparr>CanUseTool = Some denyRm, PermissionPromptToolName = ''mcp__approve''\<rparr>"

definition callbackOnly :: AgentOptions where
  "callbackOnly = \<lparr>CanUseTool = Some denyRm, PermissionPromptToolName = []\<rparr>"

section \<open>The concrete handlers, field by field\<close>

lemma handler0_eq:
  "handler0 = \<lparr>transport = connected, canUseTool = Some denyRm, hooks = [], sdkMcpServers = [],
      agents = [], pendingRequests = Map.empty, hookCallbacks = [], nextCallbackID = 0,
      requestCounter = 0, msgChan = [], msgChanRecv = 0, msgChanClosed = False, cancel = Some False,
      ctxErr = None, reader = Reading, closed = False, firstResult = False,
      streamCloseTimeout = Fin 60, initializeTimeout = Fin 60, initResult = None, readErr = None\<rparr>"
  by (simp add: handler0_def start_def newQueryHandler_def plainOptions_def Let_def)

lemma rewritingHandler_eq:
  "rewritingHandler = \<lparr>transport = connected, canUseTool = Some rewriteCommand, hooks = [],
      sdkMcpServers = [],
      agents = [], pendingRequests = Map.empty, hookCallbacks = [], nextCallbackID = 0,
      requestCounter = 0, msgChan = [], msgChanRecv = 0, msgChanClosed = False, cancel = Some False,
      ctxErr = None, reader = Reading, closed = False, firstResult = False,
      streamCloseTimeout = Fin 60, initializeTimeout = Fin 60, initResult = None, readErr = None\<rparr>"
  by (simp add: rewritingHandler_def handler0_eq)

lemma exitedHandler_eq:
  "exitedHandler = \<lparr>transport = \<lparr>process = ProcRunning, stdin = True, ready = True,
        t_cancel = Some False, exitErr = Some boom, pipe_lines = [], pipe_closes = 0,
        pipe_writeErr = None, pipe_closeErr = None\<rparr>,
      canUseTool = Some denyRm, hooks = [], sdkMcpServers = [],
      agents = [], pendingRequests = Map.empty, hookCallbacks = [], nextCallbackID = 0,
      requestCounter = 0, msgChan = [], msgChanRecv = 0, msgChanClosed = False, cancel = Some False,
      ctxErr = None, reader = Reading, closed = False, firstResult = False,
      streamCloseTimeout = Fin 60, initializeTimeout = Fin 60, initResult = None, readErr = None\<rparr>"
  by (simp add: exitedHandler_def handler0_eq connected_def)



lemma fullHandler_eq:
  "fullHandler = \<lparr>transport = connected, canUseTool = Some denyRm, hooks = [], sdkMcpServers = [],
      agents = [], pendingRequests = Map.empty, hookCallbacks = [], nextCallbackID = 0,
      requestCounter = 0, msgChan = replicate 100 assistantMsg, msgChanRecv = 0,
      msgChanClosed = False, cancel = Some False,
      ctxErr = None, reader = Reading, closed = False, firstResult = False,
      streamCloseTimeout = Fin 60, initializeTimeout = Fin 60, initResult = None, readErr = None\<rparr>"
  by (simp add: fullHandler_def handler0_eq)

lemma connected_writable: "writable connected"
  by (simp add: writable_def connected_def)

section \<open>The tool server's response envelope\<close>

lemma HandleCallTool_shape:
  "map_of (HandleCallTool s ident name args) ''jsonrpc'' = Some (JStr ''2.0'') \<and>
   map_of (HandleCallTool s ident name args) ''id'' = Some ident \<and>
   (has_key (HandleCallTool s ident name args) ''result''
      \<noteq> has_key (HandleCallTool s ident name args) ''error'')"
  by (simp add: HandleCallTool_def has_key_def Let_def split: option.split sum.split)

text \<open>
  C6, as the code has it. Every response of \<open>HandleRequest\<close> maps \<open>jsonrpc\<close> to
  \<open>"2.0"\<close> and has exactly one of the keys \<open>result\<close> and \<open>error\<close>. For every method
  but \<open>notifications/initialized\<close> the key \<open>id\<close> is present and holds the value of
  the request's \<open>id\<close> (\<open>nil\<close> when the request has none). The response to
  \<open>notifications/initialized\<close> is exactly \<open>{jsonrpc: "2.0", result: {}}\<close>: an empty
  result and no key \<open>id\<close>, whatever the request carries.
\<close>

theorem HandleRequest_envelope:
  "map_of (HandleRequest s message) ''jsonrpc'' = Some (JStr ''2.0'') \<and>
   (has_key (HandleRequest s message) ''result'' \<noteq> has_key (HandleRequest s message) ''error'') \<and>
   map_of (HandleRequest s message) ''id'' =
     (if as_string (jget message ''method'') = ''notifications/initialized'' then None
      else Some (jget message ''id'')) \<and>
   (as_string (jget message ''method'') = ''notifications/initialized'' \<longrightarrow>
      HandleRequest s message = [(''jsonrpc'', JStr ''2.0''), (''result'', JObj [])])"
  using HandleCallTool_shape
  by (simp add: HandleRequest_def HandleInitialize_def HandleListTools_def has_key_def Let_def)

theorem HandleRequest_envelope_witness:
  "map_of (HandleRequest emptyServer listRequest) ''id'' = Some (JNum 7) \<and>
   has_key (HandleRequest emptyServer listRequest) ''result'' \<and>
   \<not> has_key (HandleRequest emptyServer listRequest) ''error'' \<and>
   as_string (jget initializedNotification ''method'') = ''notifications/initialized'' \<and>
   HandleRequest emptyServer initializedNotification = [(''jsonrpc'', JStr ''2.0''), (''result'', JObj [])]"
  using HandleRequest_envelope [of emptyServer listRequest]
    HandleRequest_envelope [of emptyServer initializedNotification]
  by (simp add: listRequest_def initializedNotification_def jget_def has_key_def HandleRequest_def
      HandleListTools_def Let_def)

text \<open>
  The claim as stated fails: a \<open>notifications/initialized\<close> request with \<open>id\<close> 1 is
  answered without any \<open>id\<close>.
\<close>

theorem HandleRequest_id_counterexample:
  "jget initializedNotification ''id'' = JNum 1 \<and>
   HandleRequest emptyServer initializedNotification = [(''jsonrpc'', JStr ''2.0''), (''result'', JObj [])] \<and>
   jget (HandleRequest emptyServer initializedNotification) ''id'' = JNull \<and>
   \<not> has_key (HandleRequest emptyServer initializedNotification) ''id''"
  by (simp add: initializedNotification_def jget_def has_key_def HandleRequest_def Let_def)

section \<open>The permission callback's response body\<close>

lemma Write_writable:
  "writable t \<Longrightarrow> Write t d = (t\<lparr>pipe_lines := pipe_lines t @ [d]\<rparr>, None)"
  by (simp add: Write_def writable_def LastError_def)

lemma handleControlRequest_line:
  assumes "as_map (jget msg ''request'') = Some request"
    and "as_string (jget msg ''request_id'') \<noteq> []"
    and "writable (transport q)"
  shows "pipe_lines (transport (handleControlRequest q msg)) =
           pipe_lines (transport q) @
             [JObj (control_response (as_string (jget msg ''request_id'')) (dispatch q request))]"
  using assms by (simp add: handleControlRequest_def Let_def Write_writable)

lemma handleCanUseTool_allow:
  assumes "canUseTool q = Some callback"
    and "canUseTool_call callback request = (Inr (PermissionResultAllow updatedInput updatedPermissions), left)"
  shows "handleCanUseTool q request =
           Inr ([(''behavior'', JStr ''allow''),
                 (''updatedInput'', JObj (case updatedInput of Some u \<Rightarrow> u | None \<Rightarrow> left))] @
                (case updatedPermissions of
                   None \<Rightarrow> []
                 | Some perms \<Rightarrow> [(''updatedPermissions'', JArr (map (JObj \<circ> ToDict) perms))]))"
  using assms by (simp add: handleCanUseTool_def jset_def Let_def split: option.split)

lemma handleCanUseTool_deny:
  assumes "canUseTool q = Some callback"
    and "canUseTool_call callback request = (Inr (PermissionResultDeny message interrupt), left)"
  shows "handleCanUseTool q request =
           Inr ([(''behavior'', JStr ''deny''), (''message'', JStr message)] @
                (if interrupt then [(''interrupt'', JBool True)] else []))"
  using assms by (simp add: handleCanUseTool_def jset_def Let_def)

lemma step_control_request:
  assumes "reader q = Reading" "\<not> closed q" "as_string (jget msg ''type'') = ''control_request''"
  shows "readMessages_step q (MsgRecv msg, pick) = handleControlRequest q msg"
  using assms by (simp add: readMessages_step_def Let_def)

text \<open>
  C4, as the code has it. The reader of a running, open handler with a permission
  callback receives a \<open>control_request\<close> of subtype \<open>can_use_tool\<close> with a request id,
  on a transport that accepts writes. The callback is called with the request's tool
  name, its input map (empty when the request has none) and the parsed suggestions;
  \<open>left\<close> is the content of that input map when the callback returns. One line is
  written, the success response for the request id, and its body is as follows. When
  the callback returns allow: \<open>behavior: "allow"\<close>, \<open>updatedInput\<close> set to the
  callback's replacement input if it gave one and otherwise to the input map as the
  callback left it, and \<open>updatedPermissions\<close> (the updates as dictionaries) exactly when
  the callback supplied updates. When it returns deny: \<open>behavior: "deny"\<close> and the
  callback's \<open>message\<close>, with \<open>interrupt: true\<close> exactly when the callback asked for
  it. No other key is present.
\<close>

theorem can_use_tool_response:
  assumes "reader q = Reading" and "\<not> closed q"
    and "as_string (jget msg ''type'') = ''control_request''"
    and "as_map (jget msg ''request'') = Some request"
    and "as_string (jget msg ''request_id'') = rid" and "rid \<noteq> []"
    and "as_string (jget request ''subtype'') = ''can_use_tool''"
    and "canUseTool q = Some callback"
    and "writable (transport q)"
  shows "canUseTool_call callback request =
           callback (as_string (jget request ''tool_name''))
             (case as_map (jget request ''input'') of Some input \<Rightarrow> input | None \<Rightarrow> [])
             \<lparr>Suggestions = (case as_list (jget request ''permission_suggestions'') of
                               None \<Rightarrow> []
                             | Some raw \<Rightarrow> map parsePermissionUpdate (map_items raw))\<rparr> \<and>
         (canUseTool_call callback request = (Inr (PermissionResultAllow updatedInput updatedPermissions), left) \<longrightarrow>
            pipe_lines (transport (readMessages_step q (MsgRecv msg, pick))) =
              pipe_lines (transport q) @
                [JObj [(''type'', JStr ''control_response''),
                       (''response'', JObj
                          [(''subtype'', JStr ''success''),
                           (''request_id'', JStr rid),
                           (''response'', JObj
                              ([(''behavior'', JStr ''allow''),
                                (''updatedInput'', JObj (case updatedInput of Some u \<Rightarrow> u | None \<Rightarrow> left))] @
                               (case updatedPermissions of
                                  None \<Rightarrow> []
                                | Some perms \<Rightarrow>
                                    [(''updatedPermissions'', JArr (map (JObj \<circ> ToDict) perms))])))])]]) \<and>
         (canUseTool_call callback request = (Inr (PermissionResultDeny message interrupt), left) \<longrightarrow>
            pipe_lines (transport (readMessages_step q (MsgRecv msg, pick))) =
              pipe_lines (transport q) @
                [JObj [(''type'', JStr ''control_response''),
                       (''response'', JObj
                          [(''subtype'', JStr ''success''),
                           (''request_id'', JStr rid),
                           (''response'', JObj
                              ([(''behavior'', JStr ''deny''), (''message'', JStr message)] @
                               (if interrupt then [(''interrupt'', JBool True)] else [])))])]])"
proof -
  let ?q = "readMessages_step q (MsgRecv msg, pick)"
  have s: "?q = handleControlRequest q msg"
    using assms(1,2,3) by (rule step_control_request)
  have d: "dispatch q request = handleCanUseTool q request"
    using assms(7) by (simp add: dispatch_def)
  have l: "pipe_lines (transport ?q) =
             pipe_lines (transport q) @ [JObj (control_response rid (handleCanUseTool q request))]"
    using handleControlRequest_line [OF assms(4) _ assms(9)] assms(5,6) by (simp add: s d)
  have 1: "canUseTool_call callback request =
           callback (as_string (jget request ''tool_name''))
             (case as_map (jget request ''input'') of Some input \<Rightarrow> input | None \<Rightarrow> [])
             \<lparr>Suggestions = (case as_list (jget request ''permission_suggestions'') of
                               None \<Rightarrow> []
                             | Some raw \<Rightarrow> map parsePermissionUpdate (map_items raw))\<rparr>"
    by (simp add: canUseTool_call_def request_input_def map_or_empty_def Let_def split: option.split)
  have 2: "pipe_lines (transport ?q) =
              pipe_lines (transport q) @
                [JObj [(''type'', JStr ''control_response''),
                       (''response'', JObj
                          [(''subtype'', JStr ''success''),
                           (''request_id'', JStr rid),
                           (''response'', JObj
                              ([(''behavior'', JStr ''allow''),
                                (''updatedInput'', JObj (case updatedInput of Some u \<Rightarrow> u | None \<Rightarrow> left))] @
                               (case updatedPermissions of
                                  None \<Rightarrow> []
                                | Some perms \<Rightarrow>
                                    [(''updatedPermissions'', JArr (map (JObj \<circ> ToDict) perms))])))])]]"
    if "canUseTool_call callback request = (Inr (PermissionResultAllow updatedInput updatedPermissions), left)"
    unfolding l handleCanUseTool_allow [OF assms(8) that] by (simp add: control_response_def)
  have 3: "pipe_lines (transport ?q) =
              pipe_lines (transport q) @
                [JObj [(''type'', JStr ''control_response''),
                       (''response'', JObj
                          [(''subtype'', JStr ''success''),
                           (''request_id'', JStr rid),
                           (''response'', JObj
                              ([(''behavior'', JStr ''deny''), (''message'', JStr message)] @
                               (if interrupt then [(''interrupt'', JBool True)] else [])))])]]"
    if "canUseTool_call callback request = (Inr (PermissionResultDeny message interrupt), left)"
    unfolding l handleCanUseTool_deny [OF assms(8) that] by (simp add: control_response_def)
  from 1 2 3 show ?thesis by blast
qed

theorem can_use_tool_response_witness:
  "reader handler0 = Reading \<and> \<not> closed handler0 \<and> canUseTool handler0 = Some denyRm \<and>
   writable (transport handler0) \<and>
   canUseTool_call denyRm rmRequest =
     (Inr (PermissionResultDeny ''rm commands are not allowed'' True), [(''command'', JStr ''rm -rf /'')]) \<and>
   pipe_lines (transport (readMessages_step handler0 (MsgRecv (permissionRequest rmRequest), False))) =
     [JObj [(''type'', JStr ''control_response''),
            (''response'', JObj
               [(''subtype'', JStr ''success''),
                (''request_id'', JStr ''p7''),
                (''response'', JObj
                   [(''behavior'', JStr ''deny''), (''message'', JStr ''rm commands are not allowed''),
                    (''interrupt'', JBool True)])])]] \<and>
   canUseTool_call denyRm lsRequest =
     (Inr (PermissionResultAllow None None), [(''command'', JStr ''ls'')]) \<and>
   pipe_lines (transport (readMessages_step handler0 (MsgRecv (permissionRequest lsRequest), True))) =
     [JObj [(''type'', JStr ''control_response''),
            (''response'', JObj
               [(''subtype'', JStr ''success''),
                (''request_id'', JStr ''p7''),
                (''response'', JObj
                   [(''behavior'', JStr ''allow''),
                    (''updatedInput'', JObj [(''command'', JStr ''ls'')])])])]]"
proof -
  have h: "reader handler0 = Reading" "\<not> closed handler0" "canUseTool handler0 = Some denyRm"
    "writable (transport handler0)" "pipe_lines (transport handler0) = []"
    by (simp_all add: handler0_eq connected_writable) (simp add: connected_def)
  have m: "as_string (jget (permissionRequest r) ''type'') = ''control_request''"
    "as_map (jget (permissionRequest r) ''request'') = Some r"
    "as_string (jget (permissionRequest r) ''request_id'') = ''p7''" for r
    by (simp_all add: permissionRequest_def jget_def)
  have s: "as_string (jget rmRequest ''subtype'') = ''can_use_tool''"
    "as_string (jget lsRequest ''subtype'') = ''can_use_tool''"
    by (simp_all add: rmRequest_def lsRequest_def jget_def)
  have deny: "canUseTool_call denyRm rmRequest =
     (Inr (PermissionResultDeny ''rm commands are not allowed'' True), [(''command'', JStr ''rm -rf /'')])"
    by (simp add: canUseTool_call_def denyRm_def rmRequest_def request_input_def jget_def
        map_or_empty_def Let_def)
  have allow: "canUseTool_call denyRm lsRequest =
     (Inr (PermissionResultAllow None None), [(''command'', JStr ''ls'')])"
    by (simp add: canUseTool_call_def denyRm_def lsRequest_def request_input_def jget_def
        map_or_empty_def Let_def)
  from can_use_tool_response [OF h(1,2) m(1,2,3) _ s(1) h(3,4),
      where message = "''rm commands are not allowed''" and interrupt = True
        and left = "[(''command'', JStr ''rm -rf /'')]" and pick = False] deny h(5)
  have 1: "pipe_lines (transport (readMessages_step handler0 (MsgRecv (permissionRequest rmRequest), False))) =
     [JObj [(''type'', JStr ''control_response''),
            (''response'', JObj
               [(''subtype'', JStr ''success''),
                (''request_id'', JStr ''p7''),
                (''response'', JObj
                   [(''behavior'', JStr ''deny''), (''message'', JStr ''rm commands are not allowed''),
                    (''interrupt'', JBool True)])])]]"
    by simp
  from can_use_tool_response [OF h(1,2) m(1,2,3) _ s(2) h(3,4),
      where updatedInput = None and updatedPermissions = None
        and left = "[(''command'', JStr ''ls'')]" and pick = True] allow h(5)
  have 2: "pipe_lines (transport (readMessages_step handler0 (MsgRecv (permissionRequest lsRequest), True))) =
     [JObj [(''type'', JStr ''control_response''),
            (''response'', JObj
               [(''subtype'', JStr ''success''),
                (''request_id'', JStr ''p7''),
                (''response'', JObj
                   [(''behavior'', JStr ''allow''),
                    (''updatedInput'', JObj [(''command'', JStr ''ls'')])])])]]"
    by simp
  from h(1,2,3,4) deny 1 allow 2 show ?thesis by simp
qed

text \<open>
  The claim as stated fails for a callback that changes the map it is given: the
  callback \<open>rewriteCommand\<close> sets \<open>input["command"]\<close> and allows without a
  replacement input, and the response echoes the changed map, not the input the request
  arrived with.
\<close>

theorem mutated_input_counterexample:
  "reader rewritingHandler = Reading \<and> \<not> closed rewritingHandler \<and>
   canUseTool rewritingHandler = Some rewriteCommand \<and>
   request_input lsRequest = [(''command'', JStr ''ls'')] \<and>
   fst (canUseTool_call rewriteCommand lsRequest) = Inr (PermissionResultAllow None None) \<and>
   pipe_lines (transport (readMessages_step rewritingHandler (MsgRecv (permissionRequest lsRequest), False))) =
     [JObj [(''type'', JStr ''control_response''),
            (''response'', JObj
               [(''subtype'', JStr ''success''),
                (''request_id'', JStr ''p7''),
                (''response'', JObj
                   [(''behavior'', JStr ''allow''),
                    (''updatedInput'', JObj [(''command'', JStr ''ls -la'')])])])]] \<and>
   JObj [(''command'', JStr ''ls -la'')] \<noteq> JObj (request_input lsRequest)"
  by (simp add: rewritingHandler_eq readMessages_step_def handleControlRequest_def dispatch_def
      handleCanUseTool_def canUseTool_call_def rewriteCommand_def control_response_def
      permissionRequest_def lsRequest_def request_input_def map_or_empty_def jget_def jset_def
      Write_def LastError_def connected_def Let_def)

section \<open>Malformed inbound control requests\<close>

text \<open>
  C9. When the \<open>request\<close> field of an inbound \<open>control_request\<close> is not a JSON object,
  or its \<open>request_id\<close> is missing, not a string or the empty string, the dispatcher
  returns with the handler and its transport exactly as they were: nothing is written.
  In contrast, a well-formed request of an unknown subtype is answered: on a transport
  that accepts writes, the line written is the error response naming the subtype.
\<close>

theorem handleControlRequest_malformed:
  "(as_map (jget msg ''request'') = None \<or> as_string (jget msg ''request_id'') = []
      \<longrightarrow> handleControlRequest q msg = q) \<and>
   (as_map (jget msg ''request'') = Some request \<and> as_string (jget msg ''request_id'') \<noteq> [] \<and>
    as_string (jget request ''subtype'') \<notin> {''can_use_tool'', ''hook_callback'', ''mcp_message''} \<and>
    writable (transport q)
      \<longrightarrow> pipe_lines (transport (handleControlRequest q msg)) =
            pipe_lines (transport q) @
              [JObj [(''type'', JStr ''control_response''),
                     (''response'', JObj
                        [(''subtype'', JStr ''error''),
                         (''request_id'', JStr (as_string (jget msg ''request_id''))),
                         (''error'', JStr (''unsupported control request subtype: '' @
                                           as_string (jget request ''subtype'')))])]])"
  by (auto simp add: handleControlRequest_def Let_def dispatch_def control_response_def Write_def
      LastError_def writable_def split: option.split)

lemma handler0_transport: "transport handler0 = connected"
  by (simp add: handler0_def start_def newQueryHandler_def Let_def)

theorem handleControlRequest_malformed_witness:
  "as_string (jget noRequestID ''request_id'') = [] \<and>
   handleControlRequest handler0 noRequestID = handler0 \<and>
   writable (transport handler0) \<and>
   pipe_lines (transport (handleControlRequest handler0 unknownSubtype)) =
     [JObj [(''type'', JStr ''control_response''),
            (''response'', JObj [(''subtype'', JStr ''error''), (''request_id'', JStr ''p1''),
                                 (''error'', JStr ''unsupported control request subtype: bogus'')])]]"
proof -
  have a: "as_string (jget noRequestID ''request_id'') = []"
    by (simp add: noRequestID_def jget_def)
  have w: "writable (transport handler0)"
    by (simp add: handler0_transport writable_def connected_def)
  have r: "as_map (jget unknownSubtype ''request'') = Some [(''subtype'', JStr ''bogus'')]"
      "as_string (jget unknownSubtype ''request_id'') = ''p1''"
    by (simp_all add: unknownSubtype_def jget_def)
  have p: "pipe_lines (transport handler0) = []"
    by (simp add: handler0_transport connected_def)
  from handleControlRequest_malformed [where msg = noRequestID and q = handler0] a
  have 1: "handleControlRequest handler0 noRequestID = handler0" by simp
  from handleControlRequest_malformed [where msg = unknownSubtype and q = handler0
      and request = "[(''subtype'', JStr ''bogus'')]"] r w p
  have 2: "pipe_lines (transport (handleControlRequest handler0 unknownSubtype)) =
     [JObj [(''type'', JStr ''control_response''),
            (''response'', JObj [(''subtype'', JStr ''error''), (''request_id'', JStr ''p1''),
                                 (''error'', JStr ''unsupported control request subtype: bogus'')])]]"
    by (simp add: jget_def)
  from a 1 w 2 show ?thesis by simp
qed

section \<open>Permission settings of the two facades\<close>

text \<open>
  C10, as the code has it. In \<open>Connect\<close>, and in \<open>runQuery\<close> when it is given an
  input stream and no string prompt, a permission callback together with a non-empty
  \<open>PermissionPromptToolName\<close> is reported with the error \<open>can_use_tool callback
  cannot be used with permission_prompt_tool_name\<close> before the transport is created,
  and a callback alone sets \<open>PermissionPromptToolName\<close> to \<open>stdio\<close>. In \<open>runQuery\<close>
  with a string prompt, a permission callback is always reported with the error
  \<open>can_use_tool callback requires streaming input; use QueryStream instead of
  Query\<close>, whatever \<open>PermissionPromptToolName\<close> is.
\<close>

theorem permission_settings:
  "(CanUseTool options \<noteq> None \<and> PermissionPromptToolName options \<noteq> [] \<longrightarrow>
      Connect options = NoLaunch (SDKError ''can_use_tool callback cannot be used with permission_prompt_tool_name'' None) \<and>
      runQuery None options = NoLaunch (SDKError ''can_use_tool callback cannot be used with permission_prompt_tool_name'' None)) \<and>
   (CanUseTool options \<noteq> None \<and> PermissionPromptToolName options = [] \<longrightarrow>
      Connect options = Launch (options\<lparr>PermissionPromptToolName := ''stdio''\<rparr>) \<and>
      runQuery None options = Launch (options\<lparr>PermissionPromptToolName := ''stdio''\<rparr>)) \<and>
   (CanUseTool options \<noteq> None \<longrightarrow>
      runQuery (Some prompt) options =
        NoLaunch (SDKError ''can_use_tool callback requires streaming input; use QueryStream instead of Query'' None))"
  by (simp add: Connect_def runQuery_def Let_def)

theorem permission_settings_witness:
  "Connect bothOptions = NoLaunch (SDKError ''can_use_tool callback cannot be used with permission_prompt_tool_name'' None) \<and>
   runQuery None bothOptions = NoLaunch (SDKError ''can_use_tool callback cannot be used with permission_prompt_tool_name'' None) \<and>
   Connect callbackOnly = Launch \<lparr>CanUseTool = Some denyRm, PermissionPromptToolName = ''stdio''\<rparr> \<and>
   runQuery None callbackOnly = Launch \<lparr>CanUseTool = Some denyRm, PermissionPromptToolName = ''stdio''\<rparr> \<and>
   runQuery (Some ''What is 2+2?'') callbackOnly =
     NoLaunch (SDKError ''can_use_tool callback requires streaming input; use QueryStream instead of Query'' None)"
  using permission_settings [where options = bothOptions]
    permission_settings [where options = callbackOnly and prompt = "''What is 2+2?''"]
  by (simp add: bothOptions_def callbackOnly_def)

text \<open>
  The claim as stated fails for the one-shot query with a string prompt: with both
  settings the error sent is another one, and with the callback alone the query fails
  instead of setting \<open>stdio\<close>.
\<close>

theorem runQuery_prompt_counterexample:
  "runQuery (Some ''What is 2+2?'') bothOptions \<noteq>
     NoLaunch (SDKError ''can_use_tool callback cannot be used with permission_prompt_tool_name'' None) \<and>
   runQuery (Some ''What is 2+2?'') callbackOnly \<noteq>
     Launch \<lparr>CanUseTool = Some denyRm, PermissionPromptToolName = ''stdio''\<rparr>"
  by (simp add: runQuery_def bothOptions_def callbackOnly_def)

section \<open>The initialize timeout\<close>

text \<open>Registering hook callbacks touches the registry and its counter only.\<close>

lemma same_but_registry_refl: "same_but_registry q q"
  by (simp add: same_but_registry_def)

lemma same_but_registry_trans:
  "same_but_registry q q' \<Longrightarrow> same_but_registry q' q'' \<Longrightarrow> same_but_registry q q''"
  unfolding same_but_registry_def
  by (metis (no_types, lifting) queryHandler.surjective queryHandler.update_convs(7)
      queryHandler.update_convs(8))

lemma register_callbacks_frame: "same_but_registry q (snd (register_callbacks cbs q))"
proof (induction cbs arbitrary: q)
  case Nil
  show ?case by (simp add: same_but_registry_refl)
next
  case (Cons cb cbs)
  have "same_but_registry q
          (q\<lparr>nextCallbackID := nextCallbackID q + 1,
             hookCallbacks := AList.update (''hook_'' @ digits (nextCallbackID q)) cb (hookCallbacks q)\<rparr>)"
    by (simp add: same_but_registry_def)
  with Cons.IH show ?case
    by (auto simp add: Let_def intro: same_but_registry_trans)
qed

lemma matcher_configs_frame: "same_but_registry q (snd (matcher_configs ms q))"
proof (induction ms arbitrary: q)
  case Nil
  show ?case by (simp add: same_but_registry_refl)
next
  case (Cons m ms)
  show ?case
    using register_callbacks_frame [of q "hm_Hooks m"] Cons.IH
    by (auto simp add: Let_def intro: same_but_registry_trans)
qed

lemma hooks_config_frame: "same_but_registry q (snd (hooks_config hs hc q))"
proof (induction hs arbitrary: hc q)
  case Nil
  show ?case by (simp add: same_but_registry_refl)
next
  case (Cons h hs)
  obtain event matchers where h: "h = (event, matchers)" by (cases h)
  show ?case
    using matcher_configs_frame [of q matchers] Cons.IH
    by (auto simp add: h Let_def intro: same_but_registry_trans)
qed

lemma initialize_request_frame: "same_but_registry q (snd (initialize_request q))"
  by (simp add: initialize_request_def Let_def hooks_config_frame)

lemma same_but_registry_fields:
  assumes "same_but_registry q q'"
  shows "initializeTimeout q' = initializeTimeout q" "readErr q' = readErr q"
    "transport q' = transport q" "requestCounter q' = requestCounter q"
proof -
  from assms have e: "q' = q\<lparr>hookCallbacks := hookCallbacks q', nextCallbackID := nextCallbackID q'\<rparr>"
    by (simp add: same_but_registry_def)
  show "initializeTimeout q' = initializeTimeout q" by (subst e) simp
  show "readErr q' = readErr q" by (subst e) simp
  show "transport q' = transport q" by (subst e) simp
  show "requestCounter q' = requestCounter q" by (subst e) simp
qed

lemma resolve_cases:
  "resolveInitializeTimeout PF raw =
     (if raw = [] then Fin 60
      else case PF raw of
        None \<Rightarrow> Fin 60
      | Some (Fin f) \<Rightarrow> Fin (max 60 (f / 1000))
      | Some PosInf \<Rightarrow> PosInf
      | Some NegInf \<Rightarrow> Fin 60
      | Some NaN \<Rightarrow> NaN)"
  by (simp add: resolveInitializeTimeout_def Let_def max_def split: option.split float64.split)

lemma resolve_not_le_0: "\<not> f64_le (resolveInitializeTimeout PF raw) (Fin 0)"
  by (simp add: resolve_cases split: option.split float64.split)

lemma Connect_handler_timeout:
  "initializeTimeout (Connect_handler PF raw tr opts) = resolveInitializeTimeout PF raw"
  using resolve_not_le_0 [of PF raw]
  by (simp add: Connect_handler_def newQueryHandler_def Let_def)

lemma await_timer: "(await q rid request timeout (TimerFired d) = None) = (\<not> timer_due timeout d)"
  by (simp add: await_def)

lemma issue_writable:
  "writable (transport q) \<Longrightarrow> snd (snd (issue q request randHex)) = None"
  by (simp add: issue_def Let_def Write_def writable_def LastError_def)

lemma sendControlRequest_timer:
  assumes "readErr q = None" "writable (transport q)"
  shows "(sendControlRequest q request timeout randHex acts (TimerFired d) = None) = (\<not> timer_due timeout d)"
proof -
  obtain q1 rid werr where i: "issue q request randHex = (q1, rid, werr)"
    by (cases "issue q request randHex") auto
  with issue_writable [OF assms(2), of request randHex] have "werr = None" by simp
  with i assms(1) show ?thesis
    by (simp add: sendControlRequest_def err_def await_timer)
qed

lemma initialize_timer:
  assumes "readErr q = None" "writable (transport q)"
  shows "(initialize q randHex acts (TimerFired d) = None) = (\<not> timer_due (initializeTimeout q) d)"
proof -
  let ?b = "initialize_request q"
  have f: "same_but_registry q (snd ?b)" by (rule initialize_request_frame)
  have "(sendControlRequest (snd ?b) (fst ?b) (initializeTimeout (snd ?b)) randHex acts (TimerFired d) = None)
          = (\<not> timer_due (initializeTimeout (snd ?b)) d)"
    using assms same_but_registry_fields [OF f]
    by (intro sendControlRequest_timer) simp_all
  then show ?thesis
    using same_but_registry_fields(1) [OF f]
    by (auto simp add: initialize_def Let_def split: option.splits sum.splits prod.splits)
qed

lemma timer_due_Fin:
  "timer_due (Fin t) d =
     (if - (2 ^ 63) \<le> trunc (t * 10 ^ 9) \<and> trunc (t * 10 ^ 9) < 2 ^ 63
      then of_int (trunc (t * 10 ^ 9)) \<le> d * 10 ^ 9 else True)"
  by (simp add: timer_due_def Second_def)

lemma timer_due_other: "timer_due NaN d" "timer_due PosInf d" "timer_due NegInf d"
  by (simp_all add: timer_due_def)

text \<open>
  C7, as the code has it. \<open>resolveInitializeTimeout\<close> gives 60 seconds when
  \<open>CLAUDE_CODE_STREAM_CLOSE_TIMEOUT\<close> is unset, empty or does not parse, and
  \<open>max(60, f/1000)\<close> seconds when it parses as a finite \<open>f\<close>; for \<open>-Inf\<close> it gives
  60 and for \<open>+Inf\<close> it gives \<open>+Inf\<close>. For NaN it gives NaN, which no comparison
  clamps. The handler that \<open>Connect\<close> builds holds this value as its
  \<open>initializeTimeout\<close>, and its initialize request creates its timer from it: on a
  transport that accepts the request, the timer case of the wait can be taken after
  \<open>d\<close> seconds exactly when that timer is due. A timer is due once the value, in
  whole nanoseconds, has elapsed if that number fits an \<open>int64\<close>; for a larger value,
  \<open>+Inf\<close> and NaN the duration is what the implementation makes of the conversion, and
  nothing keeps the timer from firing before 60 seconds.
\<close>

theorem initialize_timeout_float64:
  "resolveInitializeTimeout ParseFloat raw =
     (if raw = [] then Fin 60
      else case ParseFloat raw of
        None \<Rightarrow> Fin 60
      | Some (Fin f) \<Rightarrow> Fin (max 60 (f / 1000))
      | Some PosInf \<Rightarrow> PosInf
      | Some NegInf \<Rightarrow> Fin 60
      | Some NaN \<Rightarrow> NaN) \<and>
   initializeTimeout (Connect_handler ParseFloat raw tr opts) = resolveInitializeTimeout ParseFloat raw \<and>
   (writable tr \<longrightarrow>
      (initialize (start (Connect_handler ParseFloat raw tr opts)) randHex acts (TimerFired d) = None)
        = (\<not> timer_due (resolveInitializeTimeout ParseFloat raw) d)) \<and>
   timer_due (Fin t) d =
     (if - (2 ^ 63) \<le> trunc (t * 10 ^ 9) \<and> trunc (t * 10 ^ 9) < 2 ^ 63
      then of_int (trunc (t * 10 ^ 9)) \<le> d * 10 ^ 9 else True) \<and>
   timer_due NaN d \<and> timer_due PosInf d"
proof -
  let ?q = "start (Connect_handler ParseFloat raw tr opts)"
  have r: "readErr ?q = None" "transport ?q = tr"
    "initializeTimeout ?q = resolveInitializeTimeout ParseFloat raw"
    using Connect_handler_timeout [of ParseFloat raw tr opts]
    by (simp_all add: start_def Connect_handler_def newQueryHandler_def Let_def)
  have 1: "writable tr \<longrightarrow>
      (initialize ?q randHex acts (TimerFired d) = None)
        = (\<not> timer_due (resolveInitializeTimeout ParseFloat raw) d)"
    using initialize_timer [of ?q randHex acts d] r by simp
  from 1 resolve_cases [of ParseFloat raw] Connect_handler_timeout [of ParseFloat raw tr opts]
    timer_due_Fin [of t d] timer_due_other(1,2) [of d]
  show ?thesis by simp
qed

text \<open>
  At \<open>CLAUDE_CODE_STREAM_CLOSE_TIMEOUT=NaN\<close> the value that parses is not clamped: the
  initialize timeout is NaN and the timer of the initialize request can fire at once.
  At \<open>1e13\<close> the timeout is \<open>1e10\<close> seconds, more than an \<open>int64\<close> of nanoseconds
  holds, and again the timer can fire at once. At \<open>120000\<close> the timeout is 120
  seconds and the timer fires no sooner; at \<open>5000\<close> it is the floor of 60 seconds.
\<close>

theorem initialize_timeout_float64_witness:
  "resolveInitializeTimeout msFloat ''NaN'' = NaN \<and>
   initializeTimeout (Connect_handler msFloat ''NaN'' connected plainOptions) = NaN \<and>
   writable connected \<and>
   initialize (start (Connect_handler msFloat ''NaN'' connected plainOptions)) ''0a1b2c3d'' [] (TimerFired 0) \<noteq> None \<and>
   resolveInitializeTimeout msFloat ''1e13'' = Fin (10 ^ 10) \<and>
   initialize (start (Connect_handler msFloat ''1e13'' connected plainOptions)) ''0a1b2c3d'' [] (TimerFired 0) \<noteq> None \<and>
   resolveInitializeTimeout msFloat ''120000'' = Fin 120 \<and>
   initialize (start (Connect_handler msFloat ''120000'' connected plainOptions)) ''0a1b2c3d'' [] (TimerFired 119) = None \<and>
   initialize (start (Connect_handler msFloat ''120000'' connected plainOptions)) ''0a1b2c3d'' [] (TimerFired 120) \<noteq> None \<and>
   resolveInitializeTimeout msFloat ''5000'' = Fin 60 \<and>
   resolveInitializeTimeout msFloat ''soon'' = Fin 60 \<and>
   resolveInitializeTimeout msFloat [] = Fin 60"
proof -
  have v: "resolveInitializeTimeout msFloat ''NaN'' = NaN"
    "resolveInitializeTimeout msFloat ''1e13'' = Fin (10 ^ 10)"
    "resolveInitializeTimeout msFloat ''120000'' = Fin 120"
    "resolveInitializeTimeout msFloat ''5000'' = Fin 60"
    "resolveInitializeTimeout msFloat ''soon'' = Fin 60"
    "resolveInitializeTimeout msFloat [] = Fin 60"
    using initialize_timeout_float64 [of msFloat "''NaN''"]
      initialize_timeout_float64 [of msFloat "''1e13''"]
      initialize_timeout_float64 [of msFloat "''120000''"]
      initialize_timeout_float64 [of msFloat "''5000''"]
      initialize_timeout_float64 [of msFloat "''soon''"]
      initialize_timeout_float64 [of msFloat "[]"]
    by (simp_all add: msFloat_def)
  have d: "timer_due NaN 0" "timer_due (Fin (10 ^ 10)) 0" "\<not> timer_due (Fin 120) 119"
    "timer_due (Fin 120) 120"
    by (simp_all add: timer_due_def Second_def trunc_def)
  from initialize_timeout_float64 [of msFloat "''NaN''" connected plainOptions "''0a1b2c3d''" "[]" 0]
    initialize_timeout_float64 [of msFloat "''1e13''" connected plainOptions "''0a1b2c3d''" "[]" 0]
    initialize_timeout_float64 [of msFloat "''120000''" connected plainOptions "''0a1b2c3d''" "[]" 119]
    initialize_timeout_float64 [of msFloat "''120000''" connected plainOptions "''0a1b2c3d''" "[]" 120]
    v d connected_writable
  show ?thesis by simp
qed

section \<open>Closing twice\<close>

lemma failPending_done: "pr_done (failPending e p)"
  by (simp add: failPending_def Let_def)

lemma failPending_err: "pr_err (failPending e p) = Some (case pr_err p of None \<Rightarrow> e | Some e0 \<Rightarrow> e0)"
  by (simp add: failPending_def Let_def split: option.split)

lemma failPending_idem: "pr_done p \<Longrightarrow> pr_err p \<noteq> None \<Longrightarrow> failPending e p = p"
  by (simp add: failPending_def Let_def)

lemma failPendingRequests_pending:
  "pendingRequests (failPendingRequests (Some e) q) rid = map_option (failPending e) (pendingRequests q rid)"
  by (simp add: failPendingRequests_def)

lemma failPendingRequests_all_failed: "all_failed (failPendingRequests (Some e) q)"
  unfolding all_failed_def failPendingRequests_pending
  by (auto simp add: failPending_done failPending_err)

lemma failPendingRequests_idem:
  assumes "all_failed q"
  shows "failPendingRequests (Some e) q = q"
proof -
  have "map_option (failPending e) \<circ> pendingRequests q = pendingRequests q"
  proof
    fix rid
    show "(map_option (failPending e) \<circ> pendingRequests q) rid = pendingRequests q rid"
      using assms by (cases "pendingRequests q rid") (auto simp add: all_failed_def failPending_idem)
  qed
  then show ?thesis by (simp add: failPendingRequests_def)
qed

lemma store_failure_fields:
  "closed (store_failure e q) = closed q"
  "cancel (store_failure e q) = cancel q"
  "ctxErr (store_failure e q) = ctxErr q"
  "reader (store_failure e q) = reader q"
  "transport (store_failure e q) = transport q"
  "msgChanClosed (store_failure e q) = msgChanClosed q"
  "firstResult (store_failure e q) = firstResult q"
  "msgChan (store_failure e q) = msgChan q"
  "msgChanRecv (store_failure e q) = msgChanRecv q"
  "readErr (store_failure e q) = Some (case readErr q of None \<Rightarrow> e | Some e0 \<Rightarrow> e0)"
  "pendingRequests (store_failure e q) rid = map_option (failPending e) (pendingRequests q rid)"
  by (simp_all add: store_failure_def failPendingRequests_def setReadError_def split: option.split)

lemma store_failure_room:
  "room (store_failure e q) = room q" "takes_Done c p (store_failure e q) = takes_Done c p q"
  by (simp_all add: room_def takes_Done_def store_failure_fields)

lemma send_fields:
  "closed (send v q) = closed q"
  "cancel (send v q) = cancel q"
  "ctxErr (send v q) = ctxErr q"
  "reader (send v q) = reader q"
  "transport (send v q) = transport q"
  "msgChanClosed (send v q) = msgChanClosed q"
  "firstResult (send v q) = firstResult q"
  "msgChan (send v q) = msgChan q @ [v]"
  "readErr (send v q) = readErr q"
  "pendingRequests (send v q) = pendingRequests q"
  by (simp_all add: send_def)

lemma ctx_cancel_fields:
  "closed (ctx_cancel ce q) = closed q"
  "cancel (ctx_cancel ce q) = cancel q"
  "ctxErr (ctx_cancel ce q) = Some (case ctxErr q of None \<Rightarrow> ce | Some e0 \<Rightarrow> e0)"
  "reader (ctx_cancel ce q) = reader q"
  "transport (ctx_cancel ce q) = transport q"
  "msgChanClosed (ctx_cancel ce q) = msgChanClosed q"
  "firstResult (ctx_cancel ce q) = firstResult q"
  "msgChan (ctx_cancel ce q) = msgChan q"
  "msgChanRecv (ctx_cancel ce q) = msgChanRecv q"
  "readErr (ctx_cancel ce q) = readErr q"
  "pendingRequests (ctx_cancel ce q) = pendingRequests q"
  by (simp_all add: ctx_cancel_def split: option.split)

lemma terminal_failure_fields:
  "closed (terminal_failure c p e q) = closed q"
  "cancel (terminal_failure c p e q) = cancel q"
  "ctxErr (terminal_failure c p e q) = ctxErr q"
  "reader (terminal_failure c p e q) = reader q"
  "transport (terminal_failure c p e q) = transport q"
  "msgChanClosed (terminal_failure c p e q) = msgChanClosed q"
  "firstResult (terminal_failure c p e q) = firstResult q"
  "msgChan (terminal_failure c p e q) = msgChan q @ (if takes_Done c p q then [] else [errorMessage e])"
  "readErr (terminal_failure c p e q) = Some (case readErr q of None \<Rightarrow> e | Some e0 \<Rightarrow> e0)"
  "pendingRequests (terminal_failure c p e q) rid = map_option (failPending e) (pendingRequests q rid)"
  by (simp_all add: terminal_failure_def pushErrorMessage_def store_failure_fields store_failure_room
      send_fields)

lemma store_failure_all_failed: "all_failed (store_failure e q)"
  unfolding all_failed_def store_failure_fields
  by (auto simp add: failPending_done failPending_err)

lemma terminal_failure_all_failed: "all_failed (terminal_failure c p e q)"
  unfolding all_failed_def terminal_failure_fields
  by (auto simp add: failPending_done failPending_err)

lemma reader_return_fields:
  "closed (reader_return q) = closed q" "cancel (reader_return q) = cancel q"
  "ctxErr (reader_return q) = ctxErr q" "reader (reader_return q) = Exited"
  "pendingRequests (reader_return q) = pendingRequests q"
  "msgChan (reader_return q) = msgChan q" "msgChanClosed (reader_return q)"
  "readErr (reader_return q) = readErr q" "transport (reader_return q) = transport q"
  by (simp_all add: reader_return_def)

lemma reader_return_all_failed: "all_failed (reader_return q) = all_failed q"
  by (simp add: all_failed_def reader_return_fields)

lemma step_not_reading: "reader q \<noteq> Reading \<Longrightarrow> readMessages_step q ev = q"
  by (simp add: readMessages_step_def)

text \<open>A turn of the reader of a closed handler either changes nothing or is its last.\<close>

lemma step_closed_cases:
  assumes "closed q" "reader q = Reading \<longrightarrow> ctxErr q \<noteq> None"
  shows "readMessages_step q ev = q \<or>
         readMessages_step q ev = reader_return q \<or>
         (\<exists>c p e. readMessages_step q ev = reader_return (terminal_failure c p e q))"
proof (cases "reader q = Reading")
  case False
  then show ?thesis by (simp add: step_not_reading)
next
  case True
  show ?thesis
  proof (cases "fst ev")
    case CtxDone
    with True assms show ?thesis by (simp add: readMessages_step_def split: option.split)
  next
    case ErrClosed
    with True show ?thesis by (simp add: readMessages_step_def)
  next
    case (ErrRecv eo)
    with True show ?thesis by (cases eo) (auto simp add: readMessages_step_def)
  next
    case MsgClosed
    with True show ?thesis by (auto simp add: readMessages_step_def split: option.split)
  next
    case (MsgRecv msg)
    with True assms show ?thesis by (simp add: readMessages_step_def)
  next
    case (StalledErrRecv e ce)
    with True assms show ?thesis by (auto simp add: readMessages_step_def stalled_def)
  next
    case (StalledMsgClosed ce)
    with True assms show ?thesis by (auto simp add: readMessages_step_def stalled_def split: option.split)
  next
    case (StalledMsgRecv msg ce)
    with True assms show ?thesis by (simp add: readMessages_step_def)
  qed
qed

lemma step_closed:
  assumes "closed q" "all_failed q" "reader q = Reading \<longrightarrow> ctxErr q \<noteq> None"
  shows "closed (readMessages_step q ev)" "all_failed (readMessages_step q ev)"
    "cancel (readMessages_step q ev) = cancel q" "ctxErr (readMessages_step q ev) = ctxErr q"
    "reader (readMessages_step q ev) = NotStarted \<Longrightarrow> reader q = NotStarted"
    "reader (readMessages_step q ev) = Reading \<longrightarrow> ctxErr (readMessages_step q ev) \<noteq> None"
  using step_closed_cases [OF assms(1,3), of ev] assms
  by (auto simp add: reader_return_fields terminal_failure_fields reader_return_all_failed
      terminal_failure_all_failed)

lemma readMessages_not_reading: "reader q \<noteq> Reading \<Longrightarrow> readMessages q evs = q"
  by (induction evs) (simp_all add: readMessages_def step_not_reading)

lemma readMessages_closed:
  assumes "closed q" "all_failed q" "reader q = Reading \<longrightarrow> ctxErr q \<noteq> None"
  shows "closed (readMessages q evs) \<and> all_failed (readMessages q evs) \<and>
         cancel (readMessages q evs) = cancel q \<and> ctxErr (readMessages q evs) = ctxErr q \<and>
         (reader (readMessages q evs) = NotStarted \<longrightarrow> reader q = NotStarted)"
  using assms
proof (induction evs arbitrary: q)
  case Nil
  then show ?case by (simp add: readMessages_def)
next
  case (Cons ev evs)
  have e: "readMessages q (ev # evs) = readMessages (readMessages_step q ev) evs"
    by (simp add: readMessages_def)
  from step_closed [OF Cons.prems, of ev] Cons.IH [of "readMessages_step q ev"]
  show ?case unfolding e by metis
qed


lemma wg_Wait_closed:
  assumes "closed q" "all_failed q" "reader q = Reading \<longrightarrow> ctxErr q \<noteq> None"
  shows "closed (wg_Wait q evs) \<and> all_failed (wg_Wait q evs) \<and>
         cancel (wg_Wait q evs) = cancel q \<and> ctxErr (wg_Wait q evs) = ctxErr q \<and>
         reader (wg_Wait q evs) \<noteq> Reading"
proof -
  let ?r = "readMessages q evs"
  have r: "closed ?r" "all_failed ?r" "cancel ?r = cancel q" "ctxErr ?r = ctxErr q"
    using readMessages_closed [OF assms, of evs] by auto
  show ?thesis
  proof (cases "reader ?r = Reading")
    case False
    with r show ?thesis by (simp add: wg_Wait_def Let_def)
  next
    case True
    have "reader q = Reading"
    proof (rule ccontr)
      assume "reader q \<noteq> Reading"
      then have "?r = q" by (rule readMessages_not_reading)
      with True \<open>reader q \<noteq> Reading\<close> show False by simp
    qed
    with assms(3) r(4) obtain e where e: "ctxErr ?r = Some e" by auto
    have "wg_Wait q evs = reader_return ?r"
      using True e r(1) by (simp add: wg_Wait_def Let_def readMessages_step_def)
    with r show ?thesis
      by (simp add: reader_return_fields reader_return_all_failed)
  qed
qed

lemma wg_Wait_not_reading: "reader q \<noteq> Reading \<Longrightarrow> wg_Wait q evs = q"
  by (simp add: wg_Wait_def Let_def readMessages_not_reading)

lemma Close_flat:
  "Close t =
     (t\<lparr>ready := False,
        pipe_closes := (if stdin t then Suc (pipe_closes t) else pipe_closes t),
        stdin := False,
        t_cancel := map_option (\<lambda>_. True) (t_cancel t),
        process := (if process t = ProcRunning then ProcReaped else process t)\<rparr>, None)"
proof (cases "stdin t")
  case True
  show ?thesis
  proof (cases "t_cancel t")
    case None
    with True show ?thesis by (cases "process t") (simp_all add: Close_def)
  next
    case (Some b)
    with True show ?thesis by (cases "process t") (simp_all add: Close_def)
  qed
next
  case False
  show ?thesis
  proof (cases "t_cancel t")
    case None
    with False show ?thesis by (cases "process t") (simp_all add: Close_def)
  next
    case (Some b)
    with False show ?thesis by (cases "process t") (simp_all add: Close_def)
  qed
qed

lemma Close_idem: "fst (Close (fst (Close t))) = fst (Close t)"
  by (simp add: Close_flat option.map_comp comp_def)


lemma close_unfold:
  "close q evs = (let w = wg_Wait (before_wait q) evs in w\<lparr>transport := fst (Close (transport w))\<rparr>)"
  by (simp add: close_def before_wait_def Let_def)

lemma before_wait_closed: "closed (before_wait q)"
  by (simp add: before_wait_def Let_def call_cancel_def failPendingRequests_def split: option.split)

lemma before_wait_all_failed: "all_failed (before_wait q)"
  using failPendingRequests_all_failed [of "Errorf ''query handler closed''" "q\<lparr>closed := True\<rparr>"]
  by (simp add: before_wait_def Let_def call_cancel_def all_failed_def split: option.split)

lemma before_wait_reader: "reader (before_wait q) = reader q"
  by (simp add: before_wait_def Let_def call_cancel_def failPendingRequests_def split: option.split)

lemma before_wait_cancel:
  "cancel q \<noteq> None \<Longrightarrow> ctxErr (before_wait q) \<noteq> None \<and> cancel (before_wait q) = Some True"
  "cancel q = None \<Longrightarrow> cancel (before_wait q) = None"
  by (auto simp add: before_wait_def Let_def call_cancel_def failPendingRequests_def split: option.split)

lemma closed_update_id: "closed q \<Longrightarrow> q\<lparr>closed := True\<rparr> = q"
proof -
  assume "closed q"
  then have "q\<lparr>closed := True\<rparr> = q\<lparr>closed := closed q\<rparr>" by simp
  then show ?thesis by simp
qed

lemma call_cancel_id:
  assumes "cancel q = Some True" "ctxErr q \<noteq> None"
  shows "call_cancel q = q"
proof -
  from assms(2) obtain e where e: "ctxErr q = Some e" by auto
  have "call_cancel q = q\<lparr>cancel := cancel q, ctxErr := ctxErr q\<rparr>"
    unfolding call_cancel_def e assms(1) by simp
  then show ?thesis by simp
qed

lemma before_wait_idem:
  assumes "closed q" "all_failed q" "cancel q = None \<or> (cancel q = Some True \<and> ctxErr q \<noteq> None)"
  shows "before_wait q = q"
proof -
  have 1: "q\<lparr>closed := True\<rparr> = q" using assms(1) by (rule closed_update_id)
  have 2: "failPendingRequests (Some (Errorf ''query handler closed'')) q = q"
    using assms(2) by (rule failPendingRequests_idem)
  from assms(3) have 3: "(case cancel q of None \<Rightarrow> q | Some _ \<Rightarrow> call_cancel q) = q"
    by (auto simp add: call_cancel_id)
  show ?thesis unfolding before_wait_def Let_def 1 2 by (rule 3)
qed

lemma close_twice_handler:
  assumes "reader q = Reading \<longrightarrow> cancel q \<noteq> None"
  shows "close (close q evs) evs' = close q evs"
proof -
  define b where "b = before_wait q"
  define w where "w = wg_Wait b evs"
  define c where "c = w\<lparr>transport := fst (Close (transport w))\<rparr>"
  have c: "close q evs = c" by (simp add: close_unfold Let_def c_def w_def b_def)
  have b: "closed b" "all_failed b" "reader b = Reading \<longrightarrow> ctxErr b \<noteq> None"
    using before_wait_closed [of q] before_wait_all_failed [of q] before_wait_reader [of q]
      before_wait_cancel(1) [of q] assms
    by (auto simp add: b_def)
  have w: "closed w" "all_failed w" "cancel w = cancel b" "ctxErr w = ctxErr b"
    "reader w \<noteq> Reading"
    using wg_Wait_closed [OF b, of evs] by (auto simp add: w_def)
  have cf: "closed c" "reader c \<noteq> Reading" "cancel c = cancel w" "ctxErr c = ctxErr w"
    "pendingRequests c = pendingRequests w"
    using w by (simp_all add: c_def)
  have ca: "all_failed c" using w(2) by (simp add: all_failed_def cf)
  have cancel: "cancel c = None \<or> (cancel c = Some True \<and> ctxErr c \<noteq> None)"
    using before_wait_cancel [of q] w(3,4) cf(3,4) by (cases "cancel q") (auto simp add: b_def)
  have i: "before_wait c = c" using cf(1) ca cancel by (rule before_wait_idem)
  have "wg_Wait c evs' = c" using cf(2) by (rule wg_Wait_not_reading)
  then have "close c evs' = c\<lparr>transport := fst (Close (transport c))\<rparr>"
    by (simp add: close_unfold i Let_def)
  also have "\<dots> = c" by (simp add: c_def Close_idem)
  finally show ?thesis by (simp add: c)
qed


text \<open>
  C8. A second \<open>close\<close> leaves the handler, its transport included, exactly as the
  first one left it, whatever the reader still did during either call (the reader only
  runs after \<open>start\<close> has set \<open>cancel\<close>, which is the hypothesis). \<open>EndInput\<close> after
  \<open>Close\<close>, and \<open>EndInput\<close> after \<open>EndInput\<close>, returns nil and changes no field of
  the transport; the stdin pipe is closed by the first call only.
\<close>

theorem close_and_EndInput_idempotent:
  "((reader q = Reading \<longrightarrow> cancel q \<noteq> None) \<longrightarrow> close (close q evs) evs' = close q evs) \<and>
   EndInput (fst (Close t)) = (fst (Close t), None) \<and>
   EndInput (fst (EndInput t)) = (fst (EndInput t), None) \<and>
   pipe_closes (fst (EndInput t)) = (if stdin t then Suc (pipe_closes t) else pipe_closes t)"
  using close_twice_handler [of q evs evs']
  by (simp add: EndInput_def Close_flat)

theorem close_and_EndInput_idempotent_witness:
  "cancel handler0 \<noteq> None \<and>
   close (close handler0 []) [] = close handler0 [] \<and>
   closed (close handler0 []) \<and> reader (close handler0 []) = Exited \<and>
   pipe_closes (transport (close handler0 [])) = 1 \<and>
   EndInput (transport (close handler0 [])) = (transport (close handler0 []), None) \<and>
   pipe_closes (fst (EndInput connected)) = 1 \<and>
   EndInput (fst (EndInput connected)) = (fst (EndInput connected), None)"
proof -
  have c: "cancel handler0 \<noteq> None" by (simp add: handler0_eq)
  have t: "transport (close handler0 []) = fst (Close connected)"
    "closed (close handler0 [])" "reader (close handler0 []) = Exited"
    by (simp_all add: handler0_eq close_def wg_Wait_def readMessages_def readMessages_step_def
        call_cancel_def failPendingRequests_def reader_return_def Let_def)
  from close_and_EndInput_idempotent [of handler0 "[]" "[]" connected] c t
  show ?thesis
    by (simp add: Close_flat connected_def EndInput_def)
qed

section \<open>Delivery of conversation messages\<close>

lemma complete_pending_frame:
  "msgChan (complete_pending q msg) = msgChan q"
  "reader (complete_pending q msg) = reader q"
  "closed (complete_pending q msg) = closed q"
  "ctxErr (complete_pending q msg) = ctxErr q"
  "msgChanClosed (complete_pending q msg) = msgChanClosed q"
  "readErr (complete_pending q msg) = readErr q"
  "transport (complete_pending q msg) = transport q"
  by (simp_all add: complete_pending_def Let_def split: option.split)

lemma handleControlRequest_frame:
  "msgChan (handleControlRequest q msg) = msgChan q"
  "reader (handleControlRequest q msg) = reader q"
  "closed (handleControlRequest q msg) = closed q"
  "ctxErr (handleControlRequest q msg) = ctxErr q"
  "msgChanClosed (handleControlRequest q msg) = msgChanClosed q"
  "readErr (handleControlRequest q msg) = readErr q"
  "pendingRequests (handleControlRequest q msg) = pendingRequests q"
  by (simp_all add: handleControlRequest_def Let_def split: option.split)

lemma step_message:
  assumes "reader q = Reading" "\<not> closed q" "ctxErr q = None"
  shows "msgChan (readMessages_step q (MsgRecv m, b)) = msgChan q @ (if conversation m then [m] else [])"
    "reader (readMessages_step q (MsgRecv m, b)) = Reading"
    "\<not> closed (readMessages_step q (MsgRecv m, b))"
    "ctxErr (readMessages_step q (MsgRecv m, b)) = None"
    "msgChanClosed (readMessages_step q (MsgRecv m, b)) = msgChanClosed q"
  using assms
  by (simp_all add: readMessages_step_def conversation_def Let_def complete_pending_frame
      handleControlRequest_frame takes_Done_def send_def)

text \<open>
  C2. A handler whose reader is running, that is not closed and whose context is not
  cancelled, receives the decoded objects \<open>map fst ms\<close> from the transport, in this
  order (the Boolean beside each object is the scheduler's choice, which cannot matter
  here). What it has then sent on the conversation-message channel is what was there
  before followed by exactly the objects whose \<open>type\<close> is none of \<open>control_request\<close>,
  \<open>control_response\<close>, \<open>control_cancel_request\<close>, in their order of arrival; the
  channel is still open and the reader still running. Every turn is taken to its end:
  where the buffer of the channel is full, the send of the turn has gone through after
  the consumer received, and with the context not cancelled no send is given up.
\<close>

theorem readMessages_delivers_conversation:
  assumes "reader q = Reading" "\<not> closed q" "ctxErr q = None"
  shows "msgChan (readMessages q (arrivals ms)) = msgChan q @ filter conversation (map fst ms) \<and>
         msgChanClosed (readMessages q (arrivals ms)) = msgChanClosed q \<and>
         reader (readMessages q (arrivals ms)) = Reading"
  using assms
proof (induction ms arbitrary: q)
  case Nil
  then show ?case by (simp add: readMessages_def arrivals_def)
next
  case (Cons mb ms)
  obtain m b where mb: "mb = (m, b)" by (cases mb)
  let ?q = "readMessages_step q (MsgRecv m, b)"
  have e: "readMessages q (arrivals (mb # ms)) = readMessages ?q (arrivals ms)"
    by (simp add: readMessages_def arrivals_def mb)
  from step_message [OF Cons.prems, of m b] Cons.IH [of ?q]
  show ?case unfolding e by (simp add: mb)
qed

theorem readMessages_delivers_conversation_witness:
  "reader handler0 = Reading \<and> \<not> closed handler0 \<and> ctxErr handler0 = None \<and>
   msgChan (readMessages handler0
      (arrivals [(strayResponse, False), (assistantMsg, False), (unknownSubtype, True),
                 (cancelMsg, False), (resultMsg, True)]))
     = [assistantMsg, resultMsg]"
proof -
  have h: "reader handler0 = Reading" "\<not> closed handler0" "ctxErr handler0 = None" "msgChan handler0 = []"
    by (simp_all add: handler0_eq)
  have c: "\<not> conversation strayResponse" "conversation assistantMsg" "\<not> conversation unknownSubtype"
    "\<not> conversation cancelMsg" "conversation resultMsg"
    by (simp_all add: conversation_def jget_def strayResponse_def assistantMsg_def unknownSubtype_def
        cancelMsg_def resultMsg_def)
  from readMessages_delivers_conversation [OF h(1,2,3),
      of "[(strayResponse, False), (assistantMsg, False), (unknownSubtype, True),
           (cancelMsg, False), (resultMsg, True)]"] h c
  show ?thesis by simp
qed


section \<open>Transport failure\<close>

lemma sendControlRequest_terminal:
  "readErr q = Some e \<Longrightarrow> sendControlRequest q request timeout randHex acts w = Some (q, Inl (Terminal e))"
  by (simp add: sendControlRequest_def err_def)

lemma step_transport_error:
  assumes "reader q = Reading"
    and "ev = ErrRecv (Some e) \<or> (ev = MsgClosed \<and> LastError (transport q) = Some e)"
  shows "readMessages_step q (ev, pick) = reader_return (terminal_failure (ctxErr q \<noteq> None) pick e q)"
  using assms by (auto simp add: readMessages_step_def)

lemma step_transport_error_stalled:
  assumes "reader q = Reading" and "\<not> room q" and "ctxErr q = None"
    and "ev = StalledErrRecv e ce \<or> (ev = StalledMsgClosed ce \<and> LastError (transport q) = Some e)"
  shows "readMessages_step q (ev, pick) = reader_return (ctx_cancel ce (store_failure e q))"
  using assms by (auto simp add: readMessages_step_def stalled_def)

lemma reading_no_error:
  assumes "reader q = Reading \<longrightarrow> readErr q = None"
  shows "reader (readMessages_step q ev) = Reading \<longrightarrow> readErr (readMessages_step q ev) = None"
proof (cases "reader q = Reading")
  case False
  then show ?thesis by (simp add: step_not_reading)
next
  case True
  with assms have n: "readErr q = None" by simp
  show ?thesis
  proof (cases "fst ev")
    case CtxDone
    with True n show ?thesis
      by (simp add: readMessages_step_def reader_return_fields split: option.split)
  next
    case ErrClosed
    with True n show ?thesis by (simp add: readMessages_step_def)
  next
    case (ErrRecv eo)
    with True n show ?thesis
      by (cases eo) (simp_all add: readMessages_step_def reader_return_fields)
  next
    case MsgClosed
    with True n show ?thesis
      by (simp add: readMessages_step_def reader_return_fields split: option.split)
  next
    case (MsgRecv msg)
    with True n show ?thesis
      by (simp add: readMessages_step_def reader_return_fields complete_pending_frame
          handleControlRequest_frame send_fields Let_def)
  next
    case (StalledErrRecv e ce)
    with True n show ?thesis by (simp add: readMessages_step_def reader_return_fields)
  next
    case (StalledMsgClosed ce)
    with True n show ?thesis
      by (simp add: readMessages_step_def reader_return_fields split: option.split)
  next
    case (StalledMsgRecv msg ce)
    with True n show ?thesis
      by (simp add: readMessages_step_def reader_return_fields Let_def)
  qed
qed

text \<open>The buffer never holds more than 100 values.\<close>

lemma send_bounded:
  "length (msgChan q) \<le> msgChanRecv q + 100 \<Longrightarrow>
   length (msgChan (send v q)) \<le> msgChanRecv (send v q) + 100"
  by (simp add: send_def room_def)

lemma send_received: "\<not> room q \<Longrightarrow> msgChanRecv q < msgChanRecv (send v q)"
  by (simp add: send_def room_def)

lemma terminal_failure_received:
  "msgChanRecv (terminal_failure c p e q) =
     (if takes_Done c p q \<or> room q then msgChanRecv q else Suc (length (msgChan q)) - 100)"
  by (simp add: terminal_failure_def pushErrorMessage_def store_failure_room send_def
      store_failure_fields)

text \<open>
  C3, as the code has it. The reader is running and no terminal error is stored yet
  (\<open>reading_no_error\<close>: a running reader has stored none). It takes a transport
  error \<open>e\<close> from the error channel, or finds the transport's message channel closed
  with \<open>LastError() = e\<close>. It first stores \<open>e\<close> and fails the pending requests
  (\<open>store_failure\<close>): \<open>e\<close> is the stored terminal error, every registered request has
  its completion signal closed and holds an error, \<open>e\<close> unless it already held one,
  and a control request issued from then on returns \<open>e\<close> at once, with the handler
  unchanged; the message channel is still open. Then it attempts to send the synthetic
  message \<open>{type: "error", error: e.Error()}\<close>, and the turn ends in one of two ways,
  after which the channel is closed and the reader has returned.

  The plain turn: the message is the last value sent on the channel, once, unless the
  reader's context is already cancelled and either the buffer is full or the \<open>select\<close>
  chooses \<open>ctx.Done()\<close>: then nothing is sent. A send from a full buffer has gone
  through after the consumer has received (\<open>msgChanRecv\<close> has grown).

  The stalled turn: the buffer is full, the context is not cancelled, and the context
  is cancelled (with \<open>ce\<close>) before the consumer receives. Nothing is sent.
\<close>

theorem transport_error_is_terminal:
  assumes "reader q = Reading" and "readErr q = None"
    and "plain = (ev = ErrRecv (Some e) \<or> (ev = MsgClosed \<and> LastError (transport q) = Some e))"
    and "stall = (\<not> room q \<and> ctxErr q = None \<and>
                  (ev = StalledErrRecv e ce \<or> (ev = StalledMsgClosed ce \<and> LastError (transport q) = Some e)))"
    and "plain \<or> stall"
  shows "err (store_failure e q) = Some e \<and>
         msgChanClosed (store_failure e q) = msgChanClosed q \<and>
         reader (store_failure e q) = Reading \<and>
         sendControlRequest (store_failure e q) request timeout randHex acts w =
           Some (store_failure e q, Inl (Terminal e)) \<and>
         err (readMessages_step q (ev, pick)) = Some e \<and>
         (\<forall>rid p. pendingRequests q rid = Some p \<longrightarrow>
            (\<exists>p'. pendingRequests (readMessages_step q (ev, pick)) rid = Some p' \<and> pr_done p' \<and>
                  pr_err p' = Some (case pr_err p of None \<Rightarrow> e | Some e0 \<Rightarrow> e0))) \<and>
         msgChan (readMessages_step q (ev, pick)) =
           msgChan q @
             (if stall \<or> (ctxErr q \<noteq> None \<and> (pick \<or> \<not> room q)) then [] else [errorMessage e]) \<and>
         (plain \<and> \<not> room q \<and> ctxErr q = None \<longrightarrow>
            msgChanRecv q < msgChanRecv (readMessages_step q (ev, pick))) \<and>
         ctxErr (readMessages_step q (ev, pick)) = (if stall then Some ce else ctxErr q) \<and>
         msgChanClosed (readMessages_step q (ev, pick)) \<and>
         reader (readMessages_step q (ev, pick)) = Exited \<and>
         sendControlRequest (readMessages_step q (ev, pick)) request timeout randHex acts w =
           Some (readMessages_step q (ev, pick), Inl (Terminal e))"
proof -
  let ?q = "readMessages_step q (ev, pick)"
  let ?s = "store_failure e q"
  have sr: "readErr ?s = Some e"
    using assms(2) by (simp add: store_failure_fields)
  have s1: "err ?s = Some e" "msgChanClosed ?s = msgChanClosed q" "reader ?s = Reading"
    using sr assms(1) by (simp_all add: err_def store_failure_fields)
  have s2: "sendControlRequest ?s request timeout randHex acts w = Some (?s, Inl (Terminal e))"
    using sr by (rule sendControlRequest_terminal)
  have ns: "\<not> (plain \<and> stall)" unfolding assms(3,4) by auto
  have main: "readErr ?q = Some e \<and>
         (\<forall>rid p. pendingRequests q rid = Some p \<longrightarrow>
            (\<exists>p'. pendingRequests ?q rid = Some p' \<and> pr_done p' \<and>
                  pr_err p' = Some (case pr_err p of None \<Rightarrow> e | Some e0 \<Rightarrow> e0))) \<and>
         msgChan ?q =
           msgChan q @
             (if stall \<or> (ctxErr q \<noteq> None \<and> (pick \<or> \<not> room q)) then [] else [errorMessage e]) \<and>
         (plain \<and> \<not> room q \<and> ctxErr q = None \<longrightarrow> msgChanRecv q < msgChanRecv ?q) \<and>
         ctxErr ?q = (if stall then Some ce else ctxErr q) \<and>
         msgChanClosed ?q \<and> reader ?q = Exited"
  proof (cases plain)
    case True
    with ns have n: "\<not> stall" by simp
    have s: "?q = reader_return (terminal_failure (ctxErr q \<noteq> None) pick e q)"
      using assms(1) True unfolding assms(3) by (rule step_transport_error)
    have r: "readErr ?q = Some e"
      using assms(2) by (simp add: s reader_return_fields terminal_failure_fields)
    have p: "\<forall>rid p. pendingRequests q rid = Some p \<longrightarrow>
            (\<exists>p'. pendingRequests ?q rid = Some p' \<and> pr_done p' \<and>
                  pr_err p' = Some (case pr_err p of None \<Rightarrow> e | Some e0 \<Rightarrow> e0))"
      by (simp add: s reader_return_fields terminal_failure_fields failPending_done failPending_err)
    have m: "msgChan ?q = msgChan q @ (if ctxErr q \<noteq> None \<and> (pick \<or> \<not> room q) then [] else [errorMessage e])"
      "msgChanClosed ?q" "reader ?q = Exited" "ctxErr ?q = ctxErr q"
      by (simp_all add: s reader_return_fields terminal_failure_fields takes_Done_def)
    have c: "\<not> room q \<and> ctxErr q = None \<longrightarrow> msgChanRecv q < msgChanRecv ?q"
    proof
      assume a: "\<not> room q \<and> ctxErr q = None"
      then have "msgChanRecv ?q = Suc (length (msgChan q)) - 100"
        by (simp add: s reader_return_def terminal_failure_received takes_Done_def)
      moreover from a have "msgChanRecv q + 100 \<le> length (msgChan q)"
        by (simp add: room_def)
      ultimately show "msgChanRecv q < msgChanRecv ?q" by arith
    qed
    from r p m c n show ?thesis by simp
  next
    case False
    with assms(5) have st: stall by simp
    then have h: "\<not> room q" "ctxErr q = None"
      "ev = StalledErrRecv e ce \<or> (ev = StalledMsgClosed ce \<and> LastError (transport q) = Some e)"
      unfolding assms(4) by simp_all
    have s: "?q = reader_return (ctx_cancel ce (store_failure e q))"
      using assms(1) h by (rule step_transport_error_stalled)
    have r: "readErr ?q = Some e"
      using assms(2) by (simp add: s reader_return_fields ctx_cancel_fields store_failure_fields)
    have p: "\<forall>rid p. pendingRequests q rid = Some p \<longrightarrow>
            (\<exists>p'. pendingRequests ?q rid = Some p' \<and> pr_done p' \<and>
                  pr_err p' = Some (case pr_err p of None \<Rightarrow> e | Some e0 \<Rightarrow> e0))"
      by (simp add: s reader_return_fields ctx_cancel_fields store_failure_fields
          failPending_done failPending_err)
    have m: "msgChan ?q = msgChan q" "msgChanClosed ?q" "reader ?q = Exited" "ctxErr ?q = Some ce"
      using h(2) by (simp_all add: s reader_return_fields ctx_cancel_fields store_failure_fields)
    from r p m st False show ?thesis by simp
  qed
  then have r: "readErr ?q = Some e" by simp
  from main s1 s2 sendControlRequest_terminal [OF r] show ?thesis
    by (simp add: err_def)
qed

theorem transport_error_is_terminal_witness:
  "reader handler0 = Reading \<and> readErr handler0 = None \<and> room handler0 \<and>
   err (readMessages_step handler0 (ErrRecv (Some boom), False)) = Some boom \<and>
   msgChan (readMessages_step handler0 (ErrRecv (Some boom), False)) =
     [[(''type'', JStr ''error''), (''error'', JStr ''transport boom'')]] \<and>
   msgChanClosed (readMessages_step handler0 (ErrRecv (Some boom), False)) \<and>
   sendControlRequest (readMessages_step handler0 (ErrRecv (Some boom), False))
       interruptRequest (Fin 60) ''0a1b2c3d'' [] (TimerFired 60) =
     Some (readMessages_step handler0 (ErrRecv (Some boom), False), Inl (Terminal boom)) \<and>
   reader exitedHandler = Reading \<and> readErr exitedHandler = None \<and>
   LastError (transport exitedHandler) = Some boom \<and>
   err (readMessages_step exitedHandler (MsgClosed, False)) = Some boom \<and>
   msgChan (readMessages_step exitedHandler (MsgClosed, False)) =
     [[(''type'', JStr ''error''), (''error'', JStr ''transport boom'')]] \<and>
   reader fullHandler = Reading \<and> readErr fullHandler = None \<and> \<not> room fullHandler \<and>
   ctxErr fullHandler = None \<and>
   msgChan (readMessages_step fullHandler (ErrRecv (Some boom), False)) =
     replicate 100 assistantMsg @ [[(''type'', JStr ''error''), (''error'', JStr ''transport boom'')]] \<and>
   0 < msgChanRecv (readMessages_step fullHandler (ErrRecv (Some boom), False)) \<and>
   err (readMessages_step fullHandler (StalledErrRecv boom (CtxError ''context canceled''), False)) = Some boom \<and>
   msgChan (readMessages_step fullHandler (StalledErrRecv boom (CtxError ''context canceled''), False)) =
     replicate 100 assistantMsg \<and>
   msgChanClosed (readMessages_step fullHandler (StalledErrRecv boom (CtxError ''context canceled''), False))"
proof -
  have h: "reader handler0 = Reading" "readErr handler0 = None" "msgChan handler0 = []"
    "ctxErr handler0 = None" "room handler0"
    by (simp_all add: handler0_eq room_def)
  have x: "reader exitedHandler = Reading" "readErr exitedHandler = None" "msgChan exitedHandler = []"
    "ctxErr exitedHandler = None" "LastError (transport exitedHandler) = Some boom"
    by (simp_all add: exitedHandler_eq LastError_def)
  have f: "reader fullHandler = Reading" "readErr fullHandler = None"
    "msgChan fullHandler = replicate 100 assistantMsg" "ctxErr fullHandler = None" "\<not> room fullHandler"
    "msgChanRecv fullHandler = 0"
    by (simp_all add: fullHandler_eq room_def)
  from transport_error_is_terminal [OF h(1,2) refl refl, where ev = "ErrRecv (Some boom)" and e = boom
      and pick = False and request = interruptRequest and timeout = "Fin 60"
      and randHex = "''0a1b2c3d''" and acts = "[]" and w = "TimerFired 60"] h
  have 1: "err (readMessages_step handler0 (ErrRecv (Some boom), False)) = Some boom \<and>
   msgChan (readMessages_step handler0 (ErrRecv (Some boom), False)) =
     [[(''type'', JStr ''error''), (''error'', JStr ''transport boom'')]] \<and>
   msgChanClosed (readMessages_step handler0 (ErrRecv (Some boom), False)) \<and>
   sendControlRequest (readMessages_step handler0 (ErrRecv (Some boom), False))
       interruptRequest (Fin 60) ''0a1b2c3d'' [] (TimerFired 60) =
     Some (readMessages_step handler0 (ErrRecv (Some boom), False), Inl (Terminal boom))"
    by (simp add: errorMessage_def boom_def)
  from transport_error_is_terminal [OF x(1,2) refl refl, where ev = MsgClosed and e = boom
      and pick = False and request = interruptRequest and timeout = "Fin 60"
      and randHex = "''0a1b2c3d''" and acts = "[]" and w = "TimerFired 60"] x
  have 2: "err (readMessages_step exitedHandler (MsgClosed, False)) = Some boom \<and>
   msgChan (readMessages_step exitedHandler (MsgClosed, False)) =
     [[(''type'', JStr ''error''), (''error'', JStr ''transport boom'')]]"
    by (simp add: errorMessage_def boom_def)
  from transport_error_is_terminal [OF f(1,2) refl refl, where ev = "ErrRecv (Some boom)" and e = boom
      and pick = False and request = interruptRequest and timeout = "Fin 60"
      and randHex = "''0a1b2c3d''" and acts = "[]" and w = "TimerFired 60"] f
  have 3: "msgChan (readMessages_step fullHandler (ErrRecv (Some boom), False)) =
     replicate 100 assistantMsg @ [[(''type'', JStr ''error''), (''error'', JStr ''transport boom'')]] \<and>
   0 < msgChanRecv (readMessages_step fullHandler (ErrRecv (Some boom), False))"
    by (simp add: errorMessage_def boom_def)
  from transport_error_is_terminal [OF f(1,2) refl refl,
      where ev = "StalledErrRecv boom (CtxError ''context canceled'')" and e = boom
      and ce = "CtxError ''context canceled''" and pick = False
      and request = interruptRequest and timeout = "Fin 60"
      and randHex = "''0a1b2c3d''" and acts = "[]" and w = "TimerFired 60"] f
  have 4: "err (readMessages_step fullHandler (StalledErrRecv boom (CtxError ''context canceled''), False)) = Some boom \<and>
   msgChan (readMessages_step fullHandler (StalledErrRecv boom (CtxError ''context canceled''), False)) =
     replicate 100 assistantMsg \<and>
   msgChanClosed (readMessages_step fullHandler (StalledErrRecv boom (CtxError ''context canceled''), False))"
    by simp
  from h(1,2,5) x(1,2,5) f(1,2,4,5) 1 2 3 4 show ?thesis by simp
qed

text \<open>
  The claim as stated fails. With the reader's context cancelled, the error is stored
  and the channel closes, but the synthetic message can be dropped. With the buffer
  full and the context cancelled only while the send is blocked, it is dropped too:
  the 100 values sent before are all that the channel ever carries.
\<close>

theorem error_message_dropped_counterexample:
  "reader cancelledHandler = Reading \<and> readErr cancelledHandler = None \<and>
   err (readMessages_step cancelledHandler (ErrRecv (Some boom), True)) = Some boom \<and>
   msgChan (readMessages_step cancelledHandler (ErrRecv (Some boom), True)) = [] \<and>
   msgChanClosed (readMessages_step cancelledHandler (ErrRecv (Some boom), True)) \<and>
   reader fullHandler = Reading \<and> readErr fullHandler = None \<and> ctxErr fullHandler = None \<and>
   length (msgChan fullHandler) = msgChanRecv fullHandler + 100 \<and>
   err (readMessages_step fullHandler (StalledErrRecv boom (CtxError ''context canceled''), False)) = Some boom \<and>
   msgChan (readMessages_step fullHandler (StalledErrRecv boom (CtxError ''context canceled''), False)) =
     msgChan fullHandler \<and>
   errorMessage boom \<notin> set (msgChan fullHandler) \<and>
   msgChanClosed (readMessages_step fullHandler (StalledErrRecv boom (CtxError ''context canceled''), False))"
  by (simp add: cancelledHandler_def run_activity_def ctx_cancel_def handler0_eq fullHandler_eq
      readMessages_step_def stalled_def room_def takes_Done_def
      reader_return_def terminal_failure_def store_failure_def pushErrorMessage_def
      failPendingRequests_def setReadError_def err_def errorMessage_def assistantMsg_def)

section \<open>End of the input stream\<close>











section \<open>Outcomes of an outbound control request\<close>

lemma issue_id: "fst (snd (issue q request randHex)) = requestID_of (Suc (requestCounter q)) randHex"
  by (simp add: issue_def Let_def)

lemma Delete_absent: "pendingRequests (Delete rid q) rid = None"
  by (simp add: Delete_def)

lemma await_result:
  assumes "await q rid request timeout w = Some (q', r)"
  shows "pendingRequests q' rid = None \<and>
         (case w of
            PendingDone \<Rightarrow>
              (\<exists>p. pendingRequests q rid = Some p \<and> pr_done p \<and>
                   r = (case pr_err p of
                          Some e \<Rightarrow> Inl (Failed e)
                        | None \<Rightarrow> Inr (map_or_empty (as_map (jget (map_or_empty (pr_result p)) ''response'')))))
          | TimerFired d \<Rightarrow> timer_due timeout d \<and> r = Inl (TimedOut (as_string (jget request ''subtype'')))
          | CallerCtxDone e \<Rightarrow> r = Inl (Cancelled e))"
proof (cases w)
  case PendingDone
  with assms show ?thesis
    by (auto simp add: await_def Delete_absent split: option.splits if_splits)
next
  case (TimerFired d)
  with assms show ?thesis
    by (auto simp add: await_def Delete_absent split: if_splits)
next
  case (CallerCtxDone e)
  with assms show ?thesis
    by (auto simp add: await_def Delete_absent)
qed

lemma sendControlRequest_cases:
  assumes "sendControlRequest q request timeout randHex acts w = Some (q', r)"
  shows "(\<exists>e. readErr q = Some e \<and> q' = q \<and> r = Inl (Terminal e)) \<or>
         (readErr q = None \<and>
          pendingRequests q' (requestID_of (Suc (requestCounter q)) randHex) = None \<and>
          (case issue q request randHex of
             (q1, requestID, Some e) \<Rightarrow> r = Inl (WriteFailed e)
           | (q1, requestID, None) \<Rightarrow>
               (case w of
                  PendingDone \<Rightarrow>
                    (\<exists>p. pendingRequests (run q1 acts) requestID = Some p \<and> pr_done p \<and>
                         r = (case pr_err p of
                                Some e \<Rightarrow> Inl (Failed e)
                              | None \<Rightarrow>
                                  Inr (map_or_empty (as_map (jget (map_or_empty (pr_result p)) ''response'')))))
                | TimerFired d \<Rightarrow>
                    timer_due timeout d \<and> r = Inl (TimedOut (as_string (jget request ''subtype'')))
                | CallerCtxDone e \<Rightarrow> r = Inl (Cancelled e))))"
proof (cases "readErr q")
  case (Some e)
  with assms show ?thesis by (simp add: sendControlRequest_def err_def)
next
  case None
  let ?rid = "requestID_of (Suc (requestCounter q)) randHex"
  obtain q1 werr where i: "issue q request randHex = (q1, ?rid, werr)"
    using issue_id [of q request randHex] by (cases "issue q request randHex") auto
  show ?thesis
  proof (cases werr)
    case (Some e)
    with assms None i show ?thesis
      by (auto simp add: sendControlRequest_def err_def Delete_absent)
  next
    case n: None
    with assms None i have a: "await (run q1 acts) ?rid request timeout w = Some (q', r)"
      by (simp add: sendControlRequest_def err_def)
    have "pendingRequests q' ?rid = None" using await_result [OF a] by simp
    moreover have "case w of
            PendingDone \<Rightarrow>
              (\<exists>p. pendingRequests (run q1 acts) ?rid = Some p \<and> pr_done p \<and>
                   r = (case pr_err p of
                          Some e \<Rightarrow> Inl (Failed e)
                        | None \<Rightarrow> Inr (map_or_empty (as_map (jget (map_or_empty (pr_result p)) ''response'')))))
          | TimerFired d \<Rightarrow> timer_due timeout d \<and> r = Inl (TimedOut (as_string (jget request ''subtype'')))
          | CallerCtxDone e \<Rightarrow> r = Inl (Cancelled e)"
      using await_result [OF a] by simp
    ultimately show ?thesis unfolding i n using None by simp
  qed
qed


lemma sendControlRequest_can_return:
  "timer_due timeout d \<Longrightarrow> sendControlRequest q request timeout randHex acts (TimerFired d) \<noteq> None"
  by (simp add: sendControlRequest_def await_def split: option.split prod.split)

lemma timer_due_eventually: "\<exists>d. timer_due timeout d"
proof (cases "Duration (f64_mul timeout Second)")
  case None
  then show ?thesis by (simp add: timer_due_def)
next
  case (Some ns)
  then have "timer_due timeout (of_int ns / Second)"
    by (simp add: timer_due_def Second_def)
  then show ?thesis ..
qed

text \<open>
  C1, as the code has it. A call of \<open>sendControlRequest\<close> can always return: its
  timer is due at some moment, whatever the timeout, and once it is due the timer case
  of its \<open>select\<close> can be taken. A call that
  returns has exactly one of these outcomes, each a different \<open>return\<close> of the
  function. If a terminal error is stored, it returns that error at once and the handler
  is unchanged. Otherwise it allocates the request id, registers the pending record and
  writes the request; if the write fails, the outcome is the write's error. If the
  write succeeds it waits, and the outcome is: the success body or the error stored in
  its pending record (by an error response, or by \<open>failPendingRequests\<close> at a
  terminal failure or at \<open>close\<close>), when the completion signal is closed and that
  case is taken; a timeout naming the subtype, no sooner than the timer is due; the
  caller's cancellation error. In every outcome but the first, the pending-request map has no
  entry for the request id afterwards.
\<close>

theorem sendControlRequest_outcome:
  "(\<exists>due. timer_due timeout due) \<and>
   (timer_due timeout d \<longrightarrow>
      sendControlRequest q request timeout randHex acts (TimerFired d) \<noteq> None) \<and>
   (sendControlRequest q request timeout randHex acts w = Some (q', r) \<longrightarrow>
      (\<exists>e. readErr q = Some e \<and> q' = q \<and> r = Inl (Terminal e)) \<or>
      (readErr q = None \<and>
       pendingRequests q' (requestID_of (Suc (requestCounter q)) randHex) = None \<and>
       (case issue q request randHex of
          (q1, requestID, Some e) \<Rightarrow> r = Inl (WriteFailed e)
        | (q1, requestID, None) \<Rightarrow>
            (case w of
               PendingDone \<Rightarrow>
                 (\<exists>p. pendingRequests (run q1 acts) requestID = Some p \<and> pr_done p \<and>
                      r = (case pr_err p of
                             Some e \<Rightarrow> Inl (Failed e)
                           | None \<Rightarrow>
                               Inr (map_or_empty (as_map (jget (map_or_empty (pr_result p)) ''response'')))))
             | TimerFired elapsed \<Rightarrow>
                 timer_due timeout elapsed \<and> r = Inl (TimedOut (as_string (jget request ''subtype'')))
             | CallerCtxDone e \<Rightarrow> r = Inl (Cancelled e)))))"
  using sendControlRequest_can_return [of timeout d q request randHex acts]
    sendControlRequest_cases [of q request timeout randHex acts w q' r]
    timer_due_eventually [of timeout]
  by blast

lemma requestID_of_nonempty: "requestID_of n h \<noteq> []"
  by (simp add: requestID_of_def)

lemma closedHandler_eq:
  "closedHandler = \<lparr>transport = \<lparr>process = ProcReaped, stdin = False, ready = False,
        t_cancel = Some True, exitErr = None, pipe_lines = [], pipe_closes = 1,
        pipe_writeErr = None, pipe_closeErr = None\<rparr>,
      canUseTool = Some denyRm, hooks = [], sdkMcpServers = [],
      agents = [], pendingRequests = Map.empty, hookCallbacks = [], nextCallbackID = 0,
      requestCounter = 0, msgChan = [], msgChanRecv = 0, msgChanClosed = True, cancel = Some True,
      ctxErr = Some (CtxError ''context canceled''), reader = Exited, closed = True,
      firstResult = False, streamCloseTimeout = Fin 60, initializeTimeout = Fin 60, initResult = None,
      readErr = None\<rparr>"
  by (simp add: closedHandler_def handler0_eq close_def wg_Wait_def readMessages_def
      readMessages_step_def call_cancel_def failPendingRequests_def reader_return_def Close_flat
      connected_def Let_def comp_def)

lemma run_success:
  "\<exists>q'. sendControlRequest handler0 interruptRequest (Fin 60) ''0a1b2c3d''
            [ReaderTurn (MsgRecv (successResponse (requestID_of (Suc 0) ''0a1b2c3d'')), False)] PendingDone
          = Some (q', Inr [(''ok'', JBool True)])"
  by (simp add: sendControlRequest_def err_def issue_def Write_def LastError_def run_def
      run_activity_def readMessages_step_def complete_pending_def await_def handler0_eq
      connected_def successResponse_def jget_def map_or_empty_def requestID_of_nonempty Let_def)

lemma run_error:
  "\<exists>q'. sendControlRequest handler0 interruptRequest (Fin 60) ''0a1b2c3d''
            [ReaderTurn (MsgRecv (errorResponse (requestID_of (Suc 0) ''0a1b2c3d'')), False)] PendingDone
          = Some (q', Inl (Failed (Errorf ''not now'')))"
  by (simp add: sendControlRequest_def err_def issue_def Write_def LastError_def run_def
      run_activity_def readMessages_step_def complete_pending_def await_def handler0_eq
      connected_def errorResponse_def jget_def map_or_empty_def requestID_of_nonempty Let_def)

lemma run_closed:
  "\<exists>q'. sendControlRequest handler0 interruptRequest (Fin 60) ''0a1b2c3d'' [HandlerClose []] PendingDone
          = Some (q', Inl (Failed (Errorf ''query handler closed'')))"
  by (simp add: sendControlRequest_def err_def issue_def Write_def LastError_def run_def
      run_activity_def close_def wg_Wait_def readMessages_def readMessages_step_def call_cancel_def
      failPendingRequests_def failPending_def reader_return_def await_def handler0_eq
      connected_def Let_def)

lemma run_timeout:
  "\<exists>q'. sendControlRequest handler0 interruptRequest (Fin 60) ''0a1b2c3d'' [] (TimerFired 60)
          = Some (q', Inl (TimedOut ''interrupt''))"
  by (simp add: sendControlRequest_def err_def issue_def Write_def LastError_def run_def
      await_def timer_due_def Second_def trunc_def handler0_eq connected_def interruptRequest_def
      jget_def Let_def)

lemma run_cancelled:
  "\<exists>q'. sendControlRequest handler0 interruptRequest (Fin 60) ''0a1b2c3d'' []
            (CallerCtxDone (CtxError ''context canceled''))
          = Some (q', Inl (Cancelled (CtxError ''context canceled'')))"
  by (simp add: sendControlRequest_def err_def issue_def Write_def LastError_def run_def
      await_def handler0_eq connected_def Let_def)

theorem sendControlRequest_outcome_witness:
  "(\<exists>q'. sendControlRequest handler0 interruptRequest (Fin 60) ''0a1b2c3d''
            [ReaderTurn (MsgRecv (successResponse (requestID_of (Suc 0) ''0a1b2c3d'')), False)] PendingDone
          = Some (q', Inr [(''ok'', JBool True)]) \<and>
         pendingRequests q' (requestID_of (Suc 0) ''0a1b2c3d'') = None) \<and>
   (\<exists>q'. sendControlRequest handler0 interruptRequest (Fin 60) ''0a1b2c3d''
            [ReaderTurn (MsgRecv (errorResponse (requestID_of (Suc 0) ''0a1b2c3d'')), False)] PendingDone
          = Some (q', Inl (Failed (Errorf ''not now''))) \<and>
         pendingRequests q' (requestID_of (Suc 0) ''0a1b2c3d'') = None) \<and>
   (\<exists>q'. sendControlRequest handler0 interruptRequest (Fin 60) ''0a1b2c3d'' [HandlerClose []] PendingDone
          = Some (q', Inl (Failed (Errorf ''query handler closed''))) \<and>
         pendingRequests q' (requestID_of (Suc 0) ''0a1b2c3d'') = None) \<and>
   (\<exists>q'. sendControlRequest handler0 interruptRequest (Fin 60) ''0a1b2c3d'' [] (TimerFired 60)
          = Some (q', Inl (TimedOut ''interrupt'')) \<and>
         pendingRequests q' (requestID_of (Suc 0) ''0a1b2c3d'') = None) \<and>
   (\<exists>q'. sendControlRequest handler0 interruptRequest (Fin 60) ''0a1b2c3d'' []
            (CallerCtxDone (CtxError ''context canceled''))
          = Some (q', Inl (Cancelled (CtxError ''context canceled''))) \<and>
         pendingRequests q' (requestID_of (Suc 0) ''0a1b2c3d'') = None)"
proof -
  have c: "requestCounter handler0 = 0" "readErr handler0 = None" by (simp_all add: handler0_eq)
  have absent: "pendingRequests q' (requestID_of (Suc 0) ''0a1b2c3d'') = None"
    if "sendControlRequest handler0 interruptRequest (Fin 60) ''0a1b2c3d'' acts w = Some (q', r)"
    for acts w q' r
    using sendControlRequest_outcome [where d = 0 and timeout = "Fin 60", THEN conjunct2, THEN conjunct2,
        rule_format, OF that] c
    by auto
  from run_success absent have 1: "\<exists>q'. sendControlRequest handler0 interruptRequest (Fin 60) ''0a1b2c3d''
            [ReaderTurn (MsgRecv (successResponse (requestID_of (Suc 0) ''0a1b2c3d'')), False)] PendingDone
          = Some (q', Inr [(''ok'', JBool True)]) \<and>
         pendingRequests q' (requestID_of (Suc 0) ''0a1b2c3d'') = None"
    by blast
  from run_error absent have 2: "\<exists>q'. sendControlRequest handler0 interruptRequest (Fin 60) ''0a1b2c3d''
            [ReaderTurn (MsgRecv (errorResponse (requestID_of (Suc 0) ''0a1b2c3d'')), False)] PendingDone
          = Some (q', Inl (Failed (Errorf ''not now''))) \<and>
         pendingRequests q' (requestID_of (Suc 0) ''0a1b2c3d'') = None"
    by blast
  from run_closed absent have 3: "\<exists>q'. sendControlRequest handler0 interruptRequest (Fin 60) ''0a1b2c3d''
            [HandlerClose []] PendingDone
          = Some (q', Inl (Failed (Errorf ''query handler closed''))) \<and>
         pendingRequests q' (requestID_of (Suc 0) ''0a1b2c3d'') = None"
    by blast
  from run_timeout absent have 4: "\<exists>q'. sendControlRequest handler0 interruptRequest (Fin 60) ''0a1b2c3d'' []
            (TimerFired 60)
          = Some (q', Inl (TimedOut ''interrupt'')) \<and>
         pendingRequests q' (requestID_of (Suc 0) ''0a1b2c3d'') = None"
    by blast
  from run_cancelled absent have 5: "\<exists>q'. sendControlRequest handler0 interruptRequest (Fin 60) ''0a1b2c3d'' []
            (CallerCtxDone (CtxError ''context canceled''))
          = Some (q', Inl (Cancelled (CtxError ''context canceled''))) \<and>
         pendingRequests q' (requestID_of (Suc 0) ''0a1b2c3d'') = None"
    by blast
  from 1 2 3 4 5 show ?thesis by blast
qed

text \<open>
  The claim as stated fails: a control request issued after \<open>close\<close> finds no terminal
  error stored, its write fails, and the write's error is the outcome, which is none of
  the five listed.
\<close>

theorem write_failure_counterexample:
  "readErr closedHandler = None \<and>
   map_option snd (sendControlRequest closedHandler interruptRequest (Fin 60) ''0a1b2c3d'' [] (TimerFired 60))
     = Some (Inl (WriteFailed (CLIConnectionError ''Transport is not ready for writing'' None))) \<and>
   \<not> claimed_outcome (Inl (WriteFailed (CLIConnectionError ''Transport is not ready for writing'' None)))"
  by (simp add: sendControlRequest_def err_def issue_def Write_def closedHandler_eq Delete_def
      claimed_outcome_def Let_def)

end
